theory Spec2Isabelle
  imports Complex_Main
begin

section \<open>The print-layout control of ol-print-layout-control.ts\<close>

text \<open>
  The control keeps a paper configuration (format, orientation, margins) in the property
  bag of its base class, sizes a DOM overlay, and derives a bounding box, a scale and
  print sizes from it. Numbers are modelled as reals (finite values, exact arithmetic),
  and the special values of a division by zero where the source divides without a guard;
  the print sizes are given a second time in binary64 arithmetic, rounding included. A
  string is the list of its code points.
\<close>

subsection \<open>Strings\<close>

text \<open>
  A string of the source is the list of its code points, a surrogate that stands alone
  counting as one. \<open>ascii\<close> reads a literal of this file as such a string.
\<close>

type_synonym jsstring = "nat list"

definition ascii :: "string \<Rightarrow> jsstring" where
  "ascii s = map of_char s"

text \<open>
  \<open>toUpperCase\<close> replaces each code point by its upper-case form, which may be several code
  points long. The letters a to z become A to Z and every other code point of ASCII stays;
  the forms of the code points outside ASCII are the table \<open>U\<close> of the Unicode standard,
  which this file takes as given. It maps some of them to ASCII letters (U+0131 to I,
  U+017F to S).
\<close>

definition upper_code_point :: "(nat \<Rightarrow> nat list) \<Rightarrow> nat \<Rightarrow> nat list" where
  "upper_code_point U c =
     (if 97 \<le> c \<and> c \<le> 122 then [c - 32] else if c < 128 then [c] else U c)"

definition toUpperCase :: "(nat \<Rightarrow> nat list) \<Rightarrow> jsstring \<Rightarrow> jsstring" where
  "toUpperCase U s = concat (map (upper_code_point U) s)"

text \<open>An array in a template literal: its elements joined by commas.\<close>

fun join_comma :: "jsstring list \<Rightarrow> jsstring" where
  "join_comma [] = []"
| "join_comma [x] = x"
| "join_comma (x # y # ys) = x @ ascii '','' @ join_comma (y # ys)"

subsection \<open>Constants\<close>

text \<open>Object literals as association lists of key and value, in source order.\<close>

definition ORIENTATION :: "(jsstring \<times> jsstring) list" where
  "ORIENTATION =
     [(ascii ''PORTRAIT'', ascii ''portrait''), (ascii ''LANDSCAPE'', ascii ''landscape'')]"

definition PAPER_FORMAT :: "(jsstring \<times> jsstring) list" where
  "PAPER_FORMAT =
     [(ascii ''A4'', ascii ''A4''), (ascii ''A3'', ascii ''A3''), (ascii ''A2'', ascii ''A2''),
      (ascii ''A1'', ascii ''A1''), (ascii ''A0'', ascii ''A0''),
      (ascii ''LETTER'', ascii ''LETTER''), (ascii ''TABLOID'', ascii ''TABLOID''),
      (ascii ''BROADSHEET'', ascii ''BROADSHEET'')]"

definition ORIENTATION_PORTRAIT :: jsstring where
  "ORIENTATION_PORTRAIT = ascii ''portrait''"

definition PAPER_FORMAT_A4 :: jsstring where
  "PAPER_FORMAT_A4 = ascii ''A4''"

text \<open>
  \<open>key in OBJ\<close> for the two literals above, which the setters ask of upper-case forms. The
  properties a plain object inherits all have a lower-case letter of ASCII in their names,
  and no upper-case form of the Unicode standard holds one.
\<close>

definition has_key :: "(jsstring \<times> jsstring) list \<Rightarrow> jsstring \<Rightarrow> bool" where
  "has_key obj k = (map_of obj k \<noteq> None)"

definition Object_values :: "(jsstring \<times> jsstring) list \<Rightarrow> jsstring list" where
  "Object_values obj = map snd obj"

definition INCH2MM :: real where
  "INCH2MM = 254 / 10"

record paper_size =
  short :: real
  long :: real

text \<open>
  The table of the eight formats, for the functions in exact arithmetic: the edges of the
  three formats in inches are the exact products. A name that is no key gives \<open>None\<close>; for
  the names a plain object inherits (\<open>constructor\<close>, \<open>toString\<close> and the like) the lookup of
  the source finds a value without edges and computes with NaN instead of throwing, which
  the reals of this table cannot hold. The section on binary64 arithmetic has the lookup
  of the source in full, with the rounded edges and the inherited names.
\<close>

definition PAPER_SIZE :: "jsstring \<Rightarrow> paper_size option" where
  "PAPER_SIZE = map_of
     [(ascii ''A4'', \<lparr>short = 210, long = 297\<rparr>),
      (ascii ''A3'', \<lparr>short = 297, long = 420\<rparr>),
      (ascii ''A2'', \<lparr>short = 420, long = 594\<rparr>),
      (ascii ''A1'', \<lparr>short = 594, long = 841\<rparr>),
      (ascii ''A0'', \<lparr>short = 841, long = 1189\<rparr>),
      (ascii ''LETTER'', \<lparr>short = (85 / 10) * INCH2MM, long = 11 * INCH2MM\<rparr>),
      (ascii ''TABLOID'', \<lparr>short = 11 * INCH2MM, long = 17 * INCH2MM\<rparr>),
      (ascii ''BROADSHEET'', \<lparr>short = 17 * INCH2MM, long = 22 * INCH2MM\<rparr>)]"

subsection \<open>Data\<close>

text \<open>
  The margins object, in centimetres; the same shape carries the margins in screen pixels.
  \<open>top\<close> is a constant of HOL, so the four fields carry the prefix \<open>m_\<close>.
\<close>

record margins =
  m_top :: real
  m_bottom :: real
  m_left :: real
  m_right :: real

text \<open>
  A margins object lives in the store of the program: the caller and the control may hold
  the same one. A reference is the object literal of the constructor or one of the objects
  of the caller. An object is an ordinary one, all four fields of which can be written, or
  a frozen one; a write to a frozen object throws a TypeError.
\<close>

datatype ref = Literal | Obj nat

record margins_object =
  obj_fields :: margins
  obj_frozen :: bool

record Options =
  opt_margins :: "ref option"
  opt_format :: "jsstring option"
  opt_orientation :: "jsstring option"

record box_size =
  width :: real
  height :: real

type_synonym coordinate = "real \<times> real"

text \<open>An extent is the array \<open>[minX, minY, maxX, maxY]\<close>.\<close>

type_synonym extent = "real \<times> real \<times> real \<times> real"

record DOMRect =
  rect_left :: real
  rect_top :: real
  rect_right :: real
  rect_bottom :: real

text \<open>
  The host map, as far as the control reads it: its identity, its size (undefined while
  the host has none; the source asserts that it is defined and destructures it), the origin
  of its viewport on the screen and its pixel-to-coordinate transform, as they are when
  the control asks for them, after the host has rendered. The transform is undefined while
  the host has no frame to compute it from (a host of zero area, a view without a centre):
  \<open>getCoordinateFromPixel\<close> then returns null for every pixel, and the source spreads what
  it returns.
\<close>

record hostmap =
  map_id :: nat
  getSize :: "(real \<times> real) option"
  viewport_xy :: "real \<times> real"
  getCoordinateFromPixel :: "(real \<times> real \<Rightarrow> coordinate) option"

datatype error = Error jsstring | TypeError

text \<open>
  The state of the control and of what it registered on its hosts. The property bag holds
  \<open>orientation\<close>, \<open>format\<close>, \<open>margins\<close> and \<open>bbox\<close>; an unset and a null \<open>bbox\<close> are both
  \<open>None\<close>. \<open>priv_map\<close> is the field \<open>_map\<close> (undefined and null are both \<open>None\<close>), \<open>host_map\<close>
  is what \<open>getMap()\<close> returns. A listener registration is recorded by the identity of the
  map it was made on. The property \<open>margins\<close> holds a reference; \<open>objects\<close> is the store of
  the margins objects. \<open>revision\<close> and \<open>change_events\<close> count the calls of \<open>changed()\<close> and
  the change events dispatched; the property notifications of \<open>set\<close> are not recorded.
\<close>

record world =
  p_orientation :: jsstring
  p_format :: jsstring
  p_margins :: ref
  objects :: "ref \<Rightarrow> margins_object"
  p_bbox :: "extent option"
  element_style_height :: string
  element_style_width :: string
  element_style_aspectRatio :: "real option"
  printArea_style_top :: "real option"
  printArea_style_bottom :: "real option"
  printArea_style_left :: "real option"
  printArea_style_right :: "real option"
  host_map :: "hostmap option"
  priv_map :: "nat option"
  revision :: nat
  change_events :: nat
  view_change_listeners :: "nat list"
  map_size_listeners :: "nat list"
  remove_once_handlers :: "nat list"

text \<open>
  What the control calls and this file does not define: the upper-case forms of the code
  points outside ASCII, the browser's layout (the bounding rectangles of the paper element
  and of the print area, whatever the stylesheet makes of the styles set) and the two
  functions of the map library.
\<close>

record env =
  unicode_upper :: "nat \<Rightarrow> nat list"
  element_getBoundingClientRect :: "world \<Rightarrow> box_size"
  printArea_getBoundingClientRect :: "world \<Rightarrow> DOMRect"
  transformExtent :: "extent \<Rightarrow> extent"
  getDistance :: "coordinate \<Rightarrow> coordinate \<Rightarrow> real"

text \<open>
  A number that a division of finite numbers can give: the quotient, or one of the three
  special values when the divisor is zero.
\<close>

datatype jsnum = Num real | PosInfinity | NegInfinity | NaN

definition js_div :: "real \<Rightarrow> real \<Rightarrow> jsnum" where
  "js_div a b =
     (if b \<noteq> 0 then Num (a / b)
      else if 0 < a then PosInfinity
      else if a < 0 then NegInfinity
      else NaN)"

text \<open>\<open>Math.round\<close>: the nearest integer, a half rounded up.\<close>

definition Math_round :: "real \<Rightarrow> real" where
  "Math_round x = of_int \<lfloor>x + 1 / 2\<rfloor>"

definition MAX_SAFE_INTEGER :: real where
  "MAX_SAFE_INTEGER = 9007199254740991"

subsection \<open>Construction and the getters of the configuration\<close>

text \<open>
  The constructor stores the three options as they are, or the defaults. Its second
  argument is the store of the caller's objects; the default margins are a new object.
\<close>

definition constructor :: "Options option \<Rightarrow> (ref \<Rightarrow> margins_object) \<Rightarrow> world" where
  "constructor opt_options objs =
     (let options = (case opt_options of
                       None \<Rightarrow> \<lparr>opt_margins = None, opt_format = None, opt_orientation = None\<rparr>
                     | Some opts \<Rightarrow> opts)
      in \<lparr>p_orientation = (case opt_orientation options of
                              None \<Rightarrow> ORIENTATION_PORTRAIT
                            | Some s \<Rightarrow> if s = [] then ORIENTATION_PORTRAIT else s),
          p_format = (case opt_format options of
                        None \<Rightarrow> PAPER_FORMAT_A4
                      | Some s \<Rightarrow> if s = [] then PAPER_FORMAT_A4 else s),
          p_margins = (case opt_margins options of None \<Rightarrow> Literal | Some r \<Rightarrow> r),
          objects = (case opt_margins options of
                       None \<Rightarrow> objs(Literal :=
                                 \<lparr>obj_fields = \<lparr>m_top = 2, m_bottom = 2, m_left = 2, m_right = 2\<rparr>,
                                  obj_frozen = False\<rparr>)
                     | Some r \<Rightarrow> objs),
          p_bbox = None,
          element_style_height = [],
          element_style_width = [],
          element_style_aspectRatio = None,
          printArea_style_top = None,
          printArea_style_bottom = None,
          printArea_style_left = None,
          printArea_style_right = None,
          host_map = None,
          priv_map = None,
          revision = 0,
          change_events = 0,
          view_change_listeners = [],
          map_size_listeners = [],
          remove_once_handlers = []\<rparr>)"

text \<open>\<open>setMap\<close> is inherited from the library's control: the host attaches and detaches with it.\<close>

definition setMap :: "hostmap option \<Rightarrow> world \<Rightarrow> world" where
  "setMap m w = w\<lparr>host_map := m\<rparr>"

definition getMap :: "world \<Rightarrow> hostmap option" where
  "getMap w = host_map w"

definition paperOrientation :: "world \<Rightarrow> jsstring" where
  "paperOrientation w = p_orientation w"

definition paperFormat :: "world \<Rightarrow> jsstring" where
  "paperFormat w = p_format w"

text \<open>The getter returns the stored object; its fields are read from the store.\<close>

definition margins :: "world \<Rightarrow> margins" where
  "margins w = obj_fields (objects w (p_margins w))"

text \<open>\<open>changed()\<close> counts a revision and dispatches a change event.\<close>

definition changed :: "world \<Rightarrow> world" where
  "changed w = w\<lparr>revision := revision w + 1, change_events := change_events w + 1\<rparr>"

subsection \<open>Print sizes\<close>

text \<open>
  Destructuring the entry of an unknown format throws a TypeError. The two functions are
  given here in exact arithmetic, and in the last section as the source computes them.
\<close>

definition getPrintBoxSizeInMM :: "world \<Rightarrow> error + box_size" where
  "getPrintBoxSizeInMM w =
     (case PAPER_SIZE (paperFormat w) of
        None \<Rightarrow> Inl TypeError
      | Some ps \<Rightarrow>
          (let horizontalMarginSum = (m_left (margins w) + m_right (margins w)) * 10;
               verticalMarginSum = (m_top (margins w) + m_bottom (margins w)) * 10
           in Inr (if paperOrientation w = ORIENTATION_PORTRAIT
                   then \<lparr>width = short ps - horizontalMarginSum,
                         height = long ps - verticalMarginSum\<rparr>
                   else \<lparr>width = long ps - horizontalMarginSum,
                         height = short ps - verticalMarginSum\<rparr>)))"

definition getPrintBoxSizeInDots :: "world \<Rightarrow> real option \<Rightarrow> error + box_size" where
  "getPrintBoxSizeInDots w dpi_arg =
     (let dpi = (case dpi_arg of None \<Rightarrow> 192 | Some d \<Rightarrow> d)
      in case getPrintBoxSizeInMM w of
           Inl e \<Rightarrow> Inl e
         | Inr mm \<Rightarrow>
             (let widthInInch = width mm / INCH2MM;
                  heightInInch = height mm / INCH2MM
              in Inr \<lparr>width = Math_round (widthInInch * dpi),
                      height = Math_round (heightInInch * dpi)\<rparr>))"

subsection \<open>Layout\<close>

definition getPrintMarginsInPx :: "env \<Rightarrow> world \<Rightarrow> error + margins" where
  "getPrintMarginsInPx E w =
     (let r = element_getBoundingClientRect E w
      in case PAPER_SIZE (paperFormat w) of
           None \<Rightarrow> Inl TypeError
         | Some ps \<Rightarrow>
             (let CM2PX_FACTOR = (if paperOrientation w = ORIENTATION_PORTRAIT
                                  then height r / (long ps / 10)
                                  else width r / (long ps / 10))
              in Inr \<lparr>m_top = m_top (margins w) * CM2PX_FACTOR,
                      m_bottom = m_bottom (margins w) * CM2PX_FACTOR,
                      m_left = m_left (margins w) * CM2PX_FACTOR,
                      m_right = m_right (margins w) * CM2PX_FACTOR\<rparr>))"

text \<open>Destructuring the size of a host that has none throws a TypeError.\<close>

definition getScreenMapAspectRatio :: "world \<Rightarrow> error + real" where
  "getScreenMapAspectRatio w =
     (case getMap w of
        None \<Rightarrow> Inr 1
      | Some m \<Rightarrow>
          (case getSize m of
             None \<Rightarrow> Inl TypeError
           | Some sz \<Rightarrow> Inr (if snd sz = 0 then MAX_SAFE_INTEGER else fst sz / snd sz)))"

definition getPaperMapAspectRatio :: "world \<Rightarrow> error + real" where
  "getPaperMapAspectRatio w =
     (case PAPER_SIZE (paperFormat w) of
        None \<Rightarrow> Inl TypeError
      | Some ps \<Rightarrow> Inr (if paperOrientation w = ORIENTATION_PORTRAIT
                        then short ps / long ps
                        else long ps / short ps))"

definition getRestrictingDimension :: "world \<Rightarrow> error + string" where
  "getRestrictingDimension w =
     (case getScreenMapAspectRatio w of
        Inl e \<Rightarrow> Inl e
      | Inr screen \<Rightarrow>
          (case getPaperMapAspectRatio w of
             Inl e \<Rightarrow> Inl e
           | Inr paper \<Rightarrow> Inr (if screen < paper then ''width'' else ''height'')))"

text \<open>
  A statement that may throw, run on the state: the error and the state reached when it was
  thrown, or the state after it.
\<close>

type_synonym 'a outcome = "(error + 'a) \<times> world"

definition set_printArea_top :: "env \<Rightarrow> world \<Rightarrow> unit outcome" where
  "set_printArea_top E w =
     (case getPrintMarginsInPx E w of
        Inl e \<Rightarrow> (Inl e, w)
      | Inr px \<Rightarrow> (Inr (), w\<lparr>printArea_style_top := Some (m_top px)\<rparr>))"

definition set_printArea_bottom :: "env \<Rightarrow> world \<Rightarrow> unit outcome" where
  "set_printArea_bottom E w =
     (case getPrintMarginsInPx E w of
        Inl e \<Rightarrow> (Inl e, w)
      | Inr px \<Rightarrow> (Inr (), w\<lparr>printArea_style_bottom := Some (m_bottom px)\<rparr>))"

definition set_printArea_left :: "env \<Rightarrow> world \<Rightarrow> unit outcome" where
  "set_printArea_left E w =
     (case getPrintMarginsInPx E w of
        Inl e \<Rightarrow> (Inl e, w)
      | Inr px \<Rightarrow> (Inr (), w\<lparr>printArea_style_left := Some (m_left px)\<rparr>))"

definition set_printArea_right :: "env \<Rightarrow> world \<Rightarrow> unit outcome" where
  "set_printArea_right E w =
     (case getPrintMarginsInPx E w of
        Inl e \<Rightarrow> (Inl e, w)
      | Inr px \<Rightarrow> (Inr (), w\<lparr>printArea_style_right := Some (m_right px)\<rparr>))"

text \<open>Sequencing: the second statement runs only when the first did not throw.\<close>

definition and_then :: "unit outcome \<Rightarrow> (world \<Rightarrow> unit outcome) \<Rightarrow> unit outcome" where
  "and_then r f = (case r of (Inl e, w) \<Rightarrow> (Inl e, w) | (Inr _, w) \<Rightarrow> f w)"

definition setElementSize :: "env \<Rightarrow> world \<Rightarrow> unit outcome" where
  "setElementSize E w =
     (case getRestrictingDimension w of
        Inl e \<Rightarrow> (Inl e, w)
      | Inr d \<Rightarrow>
          (let w1 = (if d = ''width''
                     then w\<lparr>element_style_height := [], element_style_width := ''80%''\<rparr>
                     else w\<lparr>element_style_height := ''80%'', element_style_width := []\<rparr>)
           in case PAPER_SIZE (paperFormat w1) of
                None \<Rightarrow> (Inl TypeError, w1)
              | Some ps \<Rightarrow>
                  (let aspectRatioPortrait = short ps / long ps;
                       w2 = w1\<lparr>element_style_aspectRatio :=
                                 Some (if paperOrientation w1 = ORIENTATION_PORTRAIT
                                       then aspectRatioPortrait
                                       else 1 / aspectRatioPortrait)\<rparr>
                   in and_then (and_then (and_then (set_printArea_top E w2)
                        (set_printArea_bottom E)) (set_printArea_left E)) (set_printArea_right E))))"

subsection \<open>The bounding box\<close>

text \<open>
  Without a host the box is null. With one, the two corners of the print area are
  converted and spread into the array; spreading a null corner throws a TypeError.
\<close>

definition computeBbox :: "env \<Rightarrow> world \<Rightarrow> error + extent option" where
  "computeBbox E w =
     (case getMap w of
        None \<Rightarrow> Inr None
      | Some m \<Rightarrow>
          (let p = printArea_getBoundingClientRect E w;
               ol_x = fst (viewport_xy m);
               ol_y = snd (viewport_xy m);
               rel_left = rect_left p - ol_x;
               rel_top = rect_top p - ol_y;
               rel_right = rect_right p - ol_x;
               rel_bottom = rect_bottom p - ol_y
           in case getCoordinateFromPixel m of
                None \<Rightarrow> Inl TypeError
              | Some toCoordinate \<Rightarrow>
                  (let lowerLeft = toCoordinate (rel_left, rel_bottom);
                       upperRight = toCoordinate (rel_right, rel_top)
                   in Inr (Some (fst lowerLeft, snd lowerLeft,
                                 fst upperRight, snd upperRight)))))"

definition handleBboxChange :: "env \<Rightarrow> world \<Rightarrow> unit outcome" where
  "handleBboxChange E w =
     (case computeBbox E w of
        Inl e \<Rightarrow> (Inl e, w)
      | Inr b \<Rightarrow> (Inr (), changed (w\<lparr>p_bbox := b\<rparr>)))"

subsection \<open>The render callback\<close>

text \<open>
  The guard compares the held map with the host by identity. Past the guard the callback
  stores the host, registers the view-change listener, the size-change listener and the
  once-handler of the host's controls, lays the element out, sets the box without a
  notification and dispatches a change event. Without a host the first call on it throws.
\<close>

definition onRender :: "env \<Rightarrow> world \<Rightarrow> unit outcome" where
  "onRender E w =
     (if priv_map w = None \<or> priv_map w \<noteq> map_option map_id (getMap w)
      then (let w1 = w\<lparr>priv_map := map_option map_id (getMap w)\<rparr>
            in case getMap w1 of
                 None \<Rightarrow> (Inl TypeError, w1)
               | Some m \<Rightarrow>
                   (let w2 = w1\<lparr>view_change_listeners := view_change_listeners w1 @ [map_id m]\<rparr>;
                        w3 = w2\<lparr>map_size_listeners := map_size_listeners w2 @ [map_id m]\<rparr>;
                        w4 = w3\<lparr>remove_once_handlers := remove_once_handlers w3 @ [map_id m]\<rparr>
                    in and_then (setElementSize E w4)
                         (\<lambda>w5. case computeBbox E w5 of
                                  Inl e \<Rightarrow> (Inl e, w5)
                                | Inr b \<Rightarrow>
                                    (Inr (), w5\<lparr>p_bbox := b,
                                                change_events := change_events w5 + 1\<rparr>))))
      else (Inr (), w))"

text \<open>
  A synchronous render of the host ends with its post-render event, on which the control's
  render callback is registered while the control has a host.
\<close>

definition renderSync :: "env \<Rightarrow> world \<Rightarrow> unit outcome" where
  "renderSync E w = onRender E w"

subsection \<open>The setters\<close>

text \<open>The statements that end each of the three setters, after the property is stored.\<close>

definition update_after_set :: "env \<Rightarrow> world \<Rightarrow> unit outcome" where
  "update_after_set E w =
     and_then
       (and_then (setElementSize E w)
          (\<lambda>w1. case getMap w1 of
                   None \<Rightarrow> (Inr (), w1)
                 | Some _ \<Rightarrow> and_then (renderSync E w1) (handleBboxChange E)))
       (\<lambda>w3. (Inr (), changed w3))"

definition set_paperOrientation :: "env \<Rightarrow> jsstring \<Rightarrow> world \<Rightarrow> unit outcome" where
  "set_paperOrientation E orientation w =
     (if has_key ORIENTATION (toUpperCase (unicode_upper E) orientation)
      then update_after_set E (w\<lparr>p_orientation := toUpperCase (unicode_upper E) orientation\<rparr>)
      else (Inl (Error (ascii ''orientaion must be one of: ''
                        @ join_comma (Object_values ORIENTATION))),
            w))"

definition set_paperFormat :: "env \<Rightarrow> jsstring \<Rightarrow> world \<Rightarrow> unit outcome" where
  "set_paperFormat E fmt w =
     (if has_key PAPER_FORMAT (toUpperCase (unicode_upper E) fmt)
      then update_after_set E (w\<lparr>p_format := toUpperCase (unicode_upper E) fmt\<rparr>)
      else (Inl (Error (ascii ''paperFormat must be on of: ''
                        @ join_comma (Object_values PAPER_FORMAT))),
            w))"

definition no_negative :: "margins \<Rightarrow> margins" where
  "no_negative m =
     \<lparr>m_top = (if m_top m < 0 then 0 else m_top m),
      m_bottom = (if m_bottom m < 0 then 0 else m_bottom m),
      m_left = (if m_left m < 0 then 0 else m_left m),
      m_right = (if m_right m < 0 then 0 else m_right m)\<rparr>"

text \<open>
  The setter writes each field of the object it is given, the clamped value in place of
  the old one, and stores the object itself. The first write to a frozen object throws,
  before anything has changed.
\<close>

definition set_margins :: "env \<Rightarrow> ref option \<Rightarrow> world \<Rightarrow> unit outcome" where
  "set_margins E margins_arg w =
     (case margins_arg of
        None \<Rightarrow> (Inr (), w)
      | Some r \<Rightarrow>
          (if obj_frozen (objects w r) then (Inl TypeError, w)
           else update_after_set E
                  (w\<lparr>objects := (objects w)
                         (r := (objects w r)\<lparr>obj_fields := no_negative (obj_fields (objects w r))\<rparr>),
                     p_margins := r\<rparr>)))"

text \<open>
  The caller writes the fields of an object it holds (one that is not frozen), which may
  be the object the control has stored.
\<close>

definition caller_writes :: "ref \<Rightarrow> margins \<Rightarrow> world \<Rightarrow> world" where
  "caller_writes r m w =
     (if obj_frozen (objects w r) then w
      else w\<lparr>objects := (objects w)(r := (objects w r)\<lparr>obj_fields := m\<rparr>)\<rparr>)"

subsection \<open>The derived getters\<close>

definition bbox :: "env \<Rightarrow> world \<Rightarrow> (extent option) outcome" where
  "bbox E w =
     (case getMap w of
        None \<Rightarrow> (Inr None, w)
      | Some _ \<Rightarrow>
          (case renderSync E w of
             (Inl e, w1) \<Rightarrow> (Inl e, w1)
           | (Inr _, w1) \<Rightarrow> (Inr (p_bbox w1), w1)))"

text \<open>
  The getter reads \<open>this.bbox\<close> twice: once for the test and once for the argument of the
  transform, which throws on null.
\<close>

definition bboxAsLonLat :: "env \<Rightarrow> world \<Rightarrow> (extent option) outcome" where
  "bboxAsLonLat E w =
     (case bbox E w of
        (Inl e, w1) \<Rightarrow> (Inl e, w1)
      | (Inr None, w1) \<Rightarrow> (Inr None, w1)
      | (Inr (Some _), w1) \<Rightarrow>
          (case bbox E w1 of
             (Inl e, w2) \<Rightarrow> (Inl e, w2)
           | (Inr None, w2) \<Rightarrow> (Inl TypeError, w2)
           | (Inr (Some b), w2) \<Rightarrow> (Inr (Some (transformExtent E b)), w2)))"

text \<open>
  \<open>slice(0, 2)\<close> and \<open>slice(2, 4)\<close> are the first and the second corner of the extent; the
  quotient of the distance by the width in metres is not guarded.
\<close>

definition getPrintMapScaleDenominator :: "env \<Rightarrow> world \<Rightarrow> (jsnum option) outcome" where
  "getPrintMapScaleDenominator E w =
     (case bboxAsLonLat E w of
        (Inl e, w1) \<Rightarrow> (Inl e, w1)
      | (Inr None, w1) \<Rightarrow> (Inr None, w1)
      | (Inr (Some _), w1) \<Rightarrow>
          (case bboxAsLonLat E w1 of
             (Inl e, w2) \<Rightarrow> (Inl e, w2)
           | (Inr None, w2) \<Rightarrow> (Inl TypeError, w2)
           | (Inr (Some (x0, y0, x1, y1)), w2) \<Rightarrow>
               (let lowerLeft = (x0, y0);
                    lowerRight = (x1, y1);
                    horizontalDistanceInMeter = getDistance E lowerLeft lowerRight
                in case getPrintBoxSizeInMM w2 of
                     Inl e \<Rightarrow> (Inl e, w2)
                   | Inr mm \<Rightarrow>
                       (let widthInM = width mm / 1000
                        in (Inr (Some (js_div horizontalDistanceInMeter widthInM)), w2)))))"

subsection \<open>Sequences of calls\<close>

text \<open>
  The host map, if there is one, has a size, and it converts every pixel to a coordinate.
\<close>

definition has_size :: "world \<Rightarrow> bool" where
  "has_size w = (case getMap w of None \<Rightarrow> True | Some m \<Rightarrow> getSize m \<noteq> None)"

definition can_locate :: "world \<Rightarrow> bool" where
  "can_locate w =
     (case getMap w of None \<Rightarrow> True | Some m \<Rightarrow> getCoordinateFromPixel m \<noteq> None)"

text \<open>
  The assignments a caller can make, and the state they leave, whether the setter returned
  or threw.
\<close>

datatype setter_call =
  Assign_paperOrientation jsstring
| Assign_paperFormat jsstring
| Assign_margins "ref option"

fun assign :: "env \<Rightarrow> setter_call \<Rightarrow> world \<Rightarrow> world" where
  "assign E (Assign_paperOrientation s) w = snd (set_paperOrientation E s w)"
| "assign E (Assign_paperFormat s) w = snd (set_paperFormat E s w)"
| "assign E (Assign_margins m) w = snd (set_margins E m w)"

fun assign_all :: "env \<Rightarrow> setter_call list \<Rightarrow> world \<Rightarrow> world" where
  "assign_all E [] w = w"
| "assign_all E (c # cs) w = assign_all E cs (assign E c w)"

definition non_negative :: "margins \<Rightarrow> bool" where
  "non_negative m \<longleftrightarrow> 0 \<le> m_top m \<and> 0 \<le> m_bottom m \<and> 0 \<le> m_left m \<and> 0 \<le> m_right m"

text \<open>
  What happens to an attached control: the host calls the render callback after each of its
  render passes, and the caller assigns. An error thrown by one call does not keep the next
  from being made.
\<close>

datatype event = Render | Assign setter_call

fun step :: "env \<Rightarrow> event \<Rightarrow> world \<Rightarrow> world" where
  "step E Render w = snd (onRender E w)"
| "step E (Assign c) w = assign E c w"

fun run :: "env \<Rightarrow> event list \<Rightarrow> world \<Rightarrow> world" where
  "run E [] w = w"
| "run E (ev # evs) w = run E evs (step E ev w)"

subsection \<open>A concrete host, browser and library\<close>

text \<open>
  For the concrete scenarios: a host map of 800 by 600 pixels with its viewport at the
  origin of the screen, its view centred on the origin of the projection at 1000 map units
  per pixel.
\<close>

definition host0 :: hostmap where
  "host0 = \<lparr>map_id = 1,
            getSize = Some (800, 600),
            viewport_xy = (0, 0),
            getCoordinateFromPixel =
              Some (\<lambda>p. ((fst p - 400) * 1000, (300 - snd p) * 1000))\<rparr>"

text \<open>
  Modelled from the spec: the stylesheet of the control and the layout of the browser are
  not in the source. The paper element takes 80% of the restricting dimension of the host,
  the other dimension follows from the aspect ratio set, and each margin in pixels is the
  inset of the print area on its side; the element is centred in the host. Without a host,
  or in a host without a size, every rectangle is zero.
\<close>

definition host_size :: "world \<Rightarrow> real \<times> real" where
  "host_size w =
     (case getMap w of
        None \<Rightarrow> (0, 0)
      | Some m \<Rightarrow> (case getSize m of None \<Rightarrow> (0, 0) | Some sz \<Rightarrow> sz))"

definition css_element_box :: "world \<Rightarrow> box_size" where
  "css_element_box w =
     (case element_style_aspectRatio w of
        None \<Rightarrow> \<lparr>width = 0, height = 0\<rparr>
      | Some ar \<Rightarrow>
          (if element_style_width w = ''80%''
           then \<lparr>width = 8 / 10 * fst (host_size w), height = 8 / 10 * fst (host_size w) / ar\<rparr>
           else if element_style_height w = ''80%''
           then \<lparr>width = 8 / 10 * snd (host_size w) * ar, height = 8 / 10 * snd (host_size w)\<rparr>
           else \<lparr>width = 0, height = 0\<rparr>))"

definition px_of :: "real option \<Rightarrow> real" where
  "px_of v = (case v of None \<Rightarrow> 0 | Some x \<Rightarrow> x)"

definition css_printArea_rect :: "world \<Rightarrow> DOMRect" where
  "css_printArea_rect w =
     (case getMap w of
        None \<Rightarrow> \<lparr>rect_left = 0, rect_top = 0, rect_right = 0, rect_bottom = 0\<rparr>
      | Some m \<Rightarrow>
          (let b = css_element_box w;
               ex = fst (viewport_xy m) + (fst (host_size w) - width b) / 2;
               ey = snd (viewport_xy m) + (snd (host_size w) - height b) / 2
           in \<lparr>rect_left = ex + px_of (printArea_style_left w),
               rect_top = ey + px_of (printArea_style_top w),
               rect_right = ex + width b - px_of (printArea_style_right w),
               rect_bottom = ey + height b - px_of (printArea_style_bottom w)\<rparr>))"

text \<open>
  Modelled from the spec: the two functions of the map library are not in the source. The
  first re-projects an extent from the projection of the map, spherical Mercator, to
  longitude and latitude (the bounding box of its transformed corners); the second is the
  great-circle (haversine) distance on a sphere of radius 6371008.8 m.
\<close>

definition mercator_lon :: "real \<Rightarrow> real" where
  "mercator_lon x = 180 * x / (pi * 6378137)"

definition mercator_lat :: "real \<Rightarrow> real" where
  "mercator_lat y = 360 * arctan (exp (y / 6378137)) / pi - 90"

definition proj_transformExtent :: "extent \<Rightarrow> extent" where
  "proj_transformExtent b =
     (case b of (x0, y0, x1, y1) \<Rightarrow>
        (min (mercator_lon x0) (mercator_lon x1), min (mercator_lat y0) (mercator_lat y1),
         max (mercator_lon x0) (mercator_lon x1), max (mercator_lat y0) (mercator_lat y1)))"

definition toRadians :: "real \<Rightarrow> real" where
  "toRadians d = d * pi / 180"

definition Math_atan2 :: "real \<Rightarrow> real \<Rightarrow> real" where
  "Math_atan2 y x =
     (if 0 < x then arctan (y / x)
      else if x < 0 then (if 0 \<le> y then arctan (y / x) + pi else arctan (y / x) - pi)
      else if 0 < y then pi / 2
      else if y < 0 then - (pi / 2)
      else 0)"

definition sphere_getDistance :: "coordinate \<Rightarrow> coordinate \<Rightarrow> real" where
  "sphere_getDistance c1 c2 =
     (let radius = 63710088 / 10;
          lat1 = toRadians (snd c1);
          lat2 = toRadians (snd c2);
          deltaLatBy2 = (lat2 - lat1) / 2;
          deltaLonBy2 = toRadians (fst c2 - fst c1) / 2;
          a = sin deltaLatBy2 * sin deltaLatBy2
              + sin deltaLonBy2 * sin deltaLonBy2 * cos lat1 * cos lat2
      in 2 * radius * Math_atan2 (sqrt a) (sqrt (1 - a)))"

text \<open>
  The upper-case forms of the scenario: the code points outside ASCII whose upper-case form
  is made of letters of ASCII alone, as the Unicode standard lists them. Every other code
  point outside ASCII is left as it is here; its form in the standard holds a code point
  outside ASCII as well, so that no test against the keys comes out differently.
\<close>

definition scenario_upper :: "nat \<Rightarrow> nat list" where
  "scenario_upper c =
     (if c = 0xDF then ascii ''SS''
      else if c = 0x131 then ascii ''I''
      else if c = 0x17F then ascii ''S''
      else if c = 0xFB00 then ascii ''FF''
      else if c = 0xFB01 then ascii ''FI''
      else if c = 0xFB02 then ascii ''FL''
      else if c = 0xFB03 then ascii ''FFI''
      else if c = 0xFB04 then ascii ''FFL''
      else if c = 0xFB05 then ascii ''ST''
      else if c = 0xFB06 then ascii ''ST''
      else [c])"

text \<open>
  Modelled from the spec: its words for the test of the two setters, that the input matches
  a known value case-insensitively, read as the caseless matching of the Unicode standard:
  two strings match when their case foldings are equal. The folding turns the letters A to
  Z into a to z and leaves every other code point of ASCII; the foldings of the code
  points outside ASCII are the table \<open>F\<close> of the standard.
\<close>

definition fold_code_point :: "(nat \<Rightarrow> nat list) \<Rightarrow> nat \<Rightarrow> nat list" where
  "fold_code_point F c =
     (if 65 \<le> c \<and> c \<le> 90 then [c + 32] else if c < 128 then [c] else F c)"

definition caseless_match :: "(nat \<Rightarrow> nat list) \<Rightarrow> jsstring \<Rightarrow> jsstring \<Rightarrow> bool" where
  "caseless_match F s v \<longleftrightarrow>
     concat (map (fold_code_point F) s) = concat (map (fold_code_point F) v)"

text \<open>
  The case foldings of the scenario: the code points outside ASCII whose folding is made
  of letters of ASCII alone, as the Unicode standard lists them; U+0131 is not among them.
  Every other code point outside ASCII is left as it is here; its folding in the standard
  holds a code point outside ASCII as well, so that no match with a string of ASCII comes
  out differently.
\<close>

definition scenario_fold :: "nat \<Rightarrow> nat list" where
  "scenario_fold c =
     (if c = 0xDF then ascii ''ss''
      else if c = 0x17F then ascii ''s''
      else if c = 0x1E9E then ascii ''ss''
      else if c = 0x212A then ascii ''k''
      else if c = 0xFB00 then ascii ''ff''
      else if c = 0xFB01 then ascii ''fi''
      else if c = 0xFB02 then ascii ''fl''
      else if c = 0xFB03 then ascii ''ffi''
      else if c = 0xFB04 then ascii ''ffl''
      else if c = 0xFB05 then ascii ''st''
      else if c = 0xFB06 then ascii ''st''
      else [c])"

text \<open>The store of a caller whose objects all hold the same margins and are not frozen.\<close>

definition holding :: "margins \<Rightarrow> ref \<Rightarrow> margins_object" where
  "holding m = (\<lambda>r. \<lparr>obj_fields = m, obj_frozen = False\<rparr>)"

definition no_margins :: margins where
  "no_margins = \<lparr>m_top = 0, m_bottom = 0, m_left = 0, m_right = 0\<rparr>"

definition E0 :: env where
  "E0 = \<lparr>unicode_upper = scenario_upper,
          element_getBoundingClientRect = css_element_box,
          printArea_getBoundingClientRect = css_printArea_rect,
          transformExtent = proj_transformExtent,
          getDistance = sphere_getDistance\<rparr>"



section \<open>The print sizes in binary64 arithmetic\<close>

text \<open>
  The numbers of the source are IEEE 754 binary64 values. The functions of this section
  round each operation as the source does, to the nearest value with ties to even, to an
  infinity beyond the largest finite value; the special values behave as the standard says.
  A finite value is \<open>Num\<close> of the real it stands for. A zero carries no sign: a division by
  zero is taken as one by +0, and the print sizes divide by \<open>INCH2MM\<close> only.
\<close>

subsection \<open>Rounding and the operations\<close>

definition round_even :: "real \<Rightarrow> int" where
  "round_even x =
     (let n = \<lfloor>x\<rfloor>; r = x - of_int n
      in if r < 1 / 2 then n else if 1 / 2 < r then n + 1 else if even n then n else n + 1)"

text \<open>
  The unit in the last place of a number is a power of two: 52 binary places below its
  leading one, and never below the smallest subnormal number.
\<close>

definition ulp_exponent :: "real \<Rightarrow> int" where
  "ulp_exponent x = max (\<lfloor>log 2 \<bar>x\<bar>\<rfloor> - 52) (- 1074)"

definition overflow_threshold :: real where
  "overflow_threshold = 2 ^ 1024"

definition binary64 :: "real \<Rightarrow> jsnum" where
  "binary64 x =
     (if x = 0 then Num 0
      else (let q = 2 powi (ulp_exponent x);
                y = of_int (round_even (x / q)) * q
            in if overflow_threshold \<le> \<bar>y\<bar> then (if 0 < x then PosInfinity else NegInfinity)
               else Num y))"

fun neg64 :: "jsnum \<Rightarrow> jsnum" where
  "neg64 (Num a) = Num (- a)"
| "neg64 PosInfinity = NegInfinity"
| "neg64 NegInfinity = PosInfinity"
| "neg64 NaN = NaN"

fun add64 :: "jsnum \<Rightarrow> jsnum \<Rightarrow> jsnum" where
  "add64 NaN y = NaN"
| "add64 x NaN = NaN"
| "add64 PosInfinity NegInfinity = NaN"
| "add64 NegInfinity PosInfinity = NaN"
| "add64 PosInfinity y = PosInfinity"
| "add64 x PosInfinity = PosInfinity"
| "add64 NegInfinity y = NegInfinity"
| "add64 x NegInfinity = NegInfinity"
| "add64 (Num a) (Num b) = binary64 (a + b)"

definition sub64 :: "jsnum \<Rightarrow> jsnum \<Rightarrow> jsnum" where
  "sub64 x y = add64 x (neg64 y)"

definition infinity64 :: "bool \<Rightarrow> jsnum" where
  "infinity64 positive = (if positive then PosInfinity else NegInfinity)"

fun mul64 :: "jsnum \<Rightarrow> jsnum \<Rightarrow> jsnum" where
  "mul64 NaN y = NaN"
| "mul64 x NaN = NaN"
| "mul64 PosInfinity PosInfinity = PosInfinity"
| "mul64 PosInfinity NegInfinity = NegInfinity"
| "mul64 NegInfinity PosInfinity = NegInfinity"
| "mul64 NegInfinity NegInfinity = PosInfinity"
| "mul64 PosInfinity (Num b) = (if b = 0 then NaN else infinity64 (0 < b))"
| "mul64 NegInfinity (Num b) = (if b = 0 then NaN else infinity64 (b < 0))"
| "mul64 (Num a) PosInfinity = (if a = 0 then NaN else infinity64 (0 < a))"
| "mul64 (Num a) NegInfinity = (if a = 0 then NaN else infinity64 (a < 0))"
| "mul64 (Num a) (Num b) = binary64 (a * b)"

fun div64 :: "jsnum \<Rightarrow> jsnum \<Rightarrow> jsnum" where
  "div64 NaN y = NaN"
| "div64 x NaN = NaN"
| "div64 PosInfinity (Num b) = infinity64 (0 \<le> b)"
| "div64 NegInfinity (Num b) = infinity64 (b < 0)"
| "div64 PosInfinity y = NaN"
| "div64 NegInfinity y = NaN"
| "div64 (Num a) (Num b) =
     (if b = 0 then (if a = 0 then NaN else infinity64 (0 < a)) else binary64 (a / b))"
| "div64 (Num a) y = Num 0"

fun round64 :: "jsnum \<Rightarrow> jsnum" where
  "round64 (Num x) = Num (of_int \<lfloor>x + 1 / 2\<rfloor>)"
| "round64 x = x"

subsection \<open>The print sizes\<close>

text \<open>The literal \<open>25.4\<close> is the binary64 value nearest to it.\<close>

definition INCH2MM64 :: jsnum where
  "INCH2MM64 = binary64 (254 / 10)"

text \<open>
  The names a plain object inherits from its prototype. The value found under one of them
  is an object or a function with no \<open>short\<close> and no \<open>long\<close>: destructuring it gives
  undefined twice, a NaN in arithmetic. Under any other name that is no key nothing is
  found and destructuring throws.
\<close>

definition Object_prototype_names :: "jsstring list" where
  "Object_prototype_names =
     map ascii [''constructor'', ''__defineGetter__'', ''__defineSetter__'',
       ''hasOwnProperty'', ''__lookupGetter__'', ''__lookupSetter__'', ''isPrototypeOf'',
       ''propertyIsEnumerable'', ''toString'', ''valueOf'', ''__proto__'', ''toLocaleString'']"

definition PAPER_SIZE64 :: "jsstring \<Rightarrow> (jsnum \<times> jsnum) option" where
  "PAPER_SIZE64 k =
     (case map_of
        [(ascii ''A4'', (Num 210, Num 297)),
         (ascii ''A3'', (Num 297, Num 420)),
         (ascii ''A2'', (Num 420, Num 594)),
         (ascii ''A1'', (Num 594, Num 841)),
         (ascii ''A0'', (Num 841, Num 1189)),
         (ascii ''LETTER'', (mul64 (Num (85 / 10)) INCH2MM64, mul64 (Num 11) INCH2MM64)),
         (ascii ''TABLOID'', (mul64 (Num 11) INCH2MM64, mul64 (Num 17) INCH2MM64)),
         (ascii ''BROADSHEET'', (mul64 (Num 17) INCH2MM64, mul64 (Num 22) INCH2MM64))] k of
        Some sizes \<Rightarrow> Some sizes
      | None \<Rightarrow> (if List.member Object_prototype_names k then Some (NaN, NaN) else None))"

text \<open>The stored configuration: what the three getters return, the margins as numbers.\<close>

record margins64 =
  top64 :: jsnum
  bottom64 :: jsnum
  left64 :: jsnum
  right64 :: jsnum

record configuration =
  cfg_format :: jsstring
  cfg_orientation :: jsstring
  cfg_margins :: margins64

record size64 =
  width64 :: jsnum
  height64 :: jsnum

definition getPrintBoxSizeInMM64 :: "configuration \<Rightarrow> error + size64" where
  "getPrintBoxSizeInMM64 c =
     (case PAPER_SIZE64 (cfg_format c) of
        None \<Rightarrow> Inl TypeError
      | Some (short64, long64) \<Rightarrow>
          (let horizontalMarginSum =
                 mul64 (add64 (left64 (cfg_margins c)) (right64 (cfg_margins c))) (Num 10);
               verticalMarginSum =
                 mul64 (add64 (top64 (cfg_margins c)) (bottom64 (cfg_margins c))) (Num 10)
           in Inr (if cfg_orientation c = ORIENTATION_PORTRAIT
                   then \<lparr>width64 = sub64 short64 horizontalMarginSum,
                         height64 = sub64 long64 verticalMarginSum\<rparr>
                   else \<lparr>width64 = sub64 long64 horizontalMarginSum,
                         height64 = sub64 short64 verticalMarginSum\<rparr>)))"

definition getPrintBoxSizeInDots64 :: "configuration \<Rightarrow> jsnum option \<Rightarrow> error + size64" where
  "getPrintBoxSizeInDots64 c dpi_arg =
     (let dpi = (case dpi_arg of None \<Rightarrow> Num 192 | Some d \<Rightarrow> d)
      in case getPrintBoxSizeInMM64 c of
           Inl e \<Rightarrow> Inl e
         | Inr mm \<Rightarrow>
             (let widthInInch = div64 (width64 mm) INCH2MM64;
                  heightInInch = div64 (height64 mm) INCH2MM64
              in Inr \<lparr>width64 = round64 (mul64 widthInInch dpi),
                      height64 = round64 (mul64 heightInInch dpi)\<rparr>))"

text \<open>A number is whole when it is an integer or not finite.\<close>

definition whole :: "jsnum \<Rightarrow> bool" where
  "whole x = (case x of Num r \<Rightarrow> of_int \<lfloor>r\<rfloor> = r | _ \<Rightarrow> True)"

text \<open>The product of a number and zero: zero when the number is finite, NaN when not.\<close>

definition zero_or_NaN :: "jsnum \<Rightarrow> jsnum" where
  "zero_or_NaN x = (case x of Num r \<Rightarrow> Num 0 | _ \<Rightarrow> NaN)"

text \<open>The configurations of the examples.\<close>

definition a4_portrait_2cm :: configuration where
  "a4_portrait_2cm =
     \<lparr>cfg_format = ascii ''A4'', cfg_orientation = ascii ''portrait'',
      cfg_margins = \<lparr>top64 = Num 2, bottom64 = Num 2, left64 = Num 2, right64 = Num 2\<rparr>\<rparr>"

definition letter_portrait_half_cm :: configuration where
  "letter_portrait_half_cm =
     \<lparr>cfg_format = ascii ''LETTER'', cfg_orientation = ascii ''portrait'',
      cfg_margins = \<lparr>top64 = Num (1 / 2), bottom64 = Num (1 / 2),
                     left64 = Num (1 / 2), right64 = Num (1 / 2)\<rparr>\<rparr>"

section \<open>Properties\<close>

subsection \<open>Evaluation of the constants and of the constructor\<close>

lemma ascii_Nil [simp]: "ascii s = [] \<longleftrightarrow> s = []"
  by (simp add: ascii_def)

lemma ascii_eq_iff [simp]: "ascii s = ascii t \<longleftrightarrow> s = t"
  by (simp add: ascii_def inj_map_eq_map inj_def)

lemma PAPER_SIZE_A4: "PAPER_SIZE (ascii ''A4'') = Some \<lparr>short = 210, long = 297\<rparr>"
  by (simp add: PAPER_SIZE_def ascii_def)

lemma constructor_None:
  "p_format (constructor None objs) = ascii ''A4''"
  "p_orientation (constructor None objs) = ascii ''portrait''"
  "p_margins (constructor None objs) = Literal"
  "obj_fields (objects (constructor None objs) Literal)
     = \<lparr>m_top = 2, m_bottom = 2, m_left = 2, m_right = 2\<rparr>"
  "host_map (constructor None objs) = None"
  by (simp_all add: constructor_def ORIENTATION_PORTRAIT_def PAPER_FORMAT_A4_def)

subsection \<open>Sequencing, getters and the layout\<close>

lemma and_then_simps [simp]:
  "and_then (Inl e, w) f = (Inl e, w)"
  "and_then (Inr u, w) f = f w"
  by (simp_all add: and_then_def)

lemma getters [simp]:
  "getMap w = host_map w" "paperFormat w = p_format w"
  "paperOrientation w = p_orientation w"
  by (simp_all add: getMap_def paperFormat_def paperOrientation_def)

text \<open>The margins read are those of the stored object.\<close>

lemma margins_cong:
  "p_margins w' = p_margins w \<Longrightarrow> objects w' = objects w \<Longrightarrow> margins w' = margins w"
  by (simp add: margins_def)

lemma getPrintMarginsInPx_known:
  "PAPER_SIZE (p_format w) = Some ps \<Longrightarrow> \<exists>px. getPrintMarginsInPx E w = Inr px"
  by (simp add: getPrintMarginsInPx_def Let_def)

lemma getPrintMarginsInPx_unknown:
  "PAPER_SIZE (p_format w) = None \<Longrightarrow> getPrintMarginsInPx E w = Inl TypeError"
  by (simp add: getPrintMarginsInPx_def Let_def)

lemma set_printArea_known:
  assumes "PAPER_SIZE (p_format w) = Some ps"
  shows "\<exists>v. set_printArea_top E w = (Inr (), w\<lparr>printArea_style_top := Some v\<rparr>)"
    and "\<exists>v. set_printArea_bottom E w = (Inr (), w\<lparr>printArea_style_bottom := Some v\<rparr>)"
    and "\<exists>v. set_printArea_left E w = (Inr (), w\<lparr>printArea_style_left := Some v\<rparr>)"
    and "\<exists>v. set_printArea_right E w = (Inr (), w\<lparr>printArea_style_right := Some v\<rparr>)"
  using getPrintMarginsInPx_known [OF assms, of E]
  by (auto simp: set_printArea_top_def set_printArea_bottom_def set_printArea_left_def
      set_printArea_right_def)

lemma has_size_host_map: "host_map w' = host_map w \<Longrightarrow> has_size w' = has_size w"
  by (simp add: has_size_def)

lemma getRestrictingDimension_known:
  "PAPER_SIZE (p_format w) = Some ps \<Longrightarrow> has_size w \<Longrightarrow>
     getRestrictingDimension w = Inr ''width'' \<or> getRestrictingDimension w = Inr ''height''"
  by (auto simp: getRestrictingDimension_def getPaperMapAspectRatio_def
      getScreenMapAspectRatio_def has_size_def split: option.splits)

lemma getRestrictingDimension_unknown:
  "PAPER_SIZE (p_format w) = None \<or> \<not> has_size w \<Longrightarrow>
     getRestrictingDimension w = Inl TypeError"
  by (auto simp: getRestrictingDimension_def getPaperMapAspectRatio_def
      getScreenMapAspectRatio_def has_size_def split: option.splits)

lemma setElementSize_unknown:
  "PAPER_SIZE (p_format w) = None \<or> \<not> has_size w \<Longrightarrow>
     setElementSize E w = (Inl TypeError, w)"
  by (simp add: setElementSize_def getRestrictingDimension_unknown)

text \<open>With a known format the layout succeeds and writes the seven style properties only.\<close>

lemma setElementSize_known:
  assumes "PAPER_SIZE (p_format w) = Some ps" and "has_size w"
  shows "\<exists>h wd ar t b l r. setElementSize E w =
           (Inr (), w\<lparr>element_style_height := h, element_style_width := wd,
                      element_style_aspectRatio := ar, printArea_style_top := t,
                      printArea_style_bottom := b, printArea_style_left := l,
                      printArea_style_right := r\<rparr>)"
proof -
  define d where "d = (getRestrictingDimension w = Inr ''width'')"
  define w2 where "w2 = w\<lparr>element_style_height := (if d then [] else ''80%''),
     element_style_width := (if d then ''80%'' else []),
     element_style_aspectRatio :=
       Some (if p_orientation w = ORIENTATION_PORTRAIT then short ps / long ps
             else 1 / (short ps / long ps))\<rparr>"
  have f2: "PAPER_SIZE (p_format w2) = Some ps" using assms(1) by (simp add: w2_def)
  obtain t where t: "set_printArea_top E w2 = (Inr (), w2\<lparr>printArea_style_top := Some t\<rparr>)"
    using set_printArea_known(1) [OF f2] by blast
  let ?w3 = "w2\<lparr>printArea_style_top := Some t\<rparr>"
  have f3: "PAPER_SIZE (p_format ?w3) = Some ps" using f2 by simp
  obtain b where b: "set_printArea_bottom E ?w3 = (Inr (), ?w3\<lparr>printArea_style_bottom := Some b\<rparr>)"
    using set_printArea_known(2) [OF f3] by blast
  let ?w4 = "?w3\<lparr>printArea_style_bottom := Some b\<rparr>"
  have f4: "PAPER_SIZE (p_format ?w4) = Some ps" using f2 by simp
  obtain l where l: "set_printArea_left E ?w4 = (Inr (), ?w4\<lparr>printArea_style_left := Some l\<rparr>)"
    using set_printArea_known(3) [OF f4] by blast
  let ?w5 = "?w4\<lparr>printArea_style_left := Some l\<rparr>"
  have f5: "PAPER_SIZE (p_format ?w5) = Some ps" using f2 by simp
  obtain r where r: "set_printArea_right E ?w5 = (Inr (), ?w5\<lparr>printArea_style_right := Some r\<rparr>)"
    using set_printArea_known(4) [OF f5] by blast
  have "setElementSize E w = (Inr (), ?w5\<lparr>printArea_style_right := Some r\<rparr>)"
    using getRestrictingDimension_known [OF assms] assms(1) t b l r
    by (auto simp: setElementSize_def Let_def w2_def d_def)
  then show ?thesis
    unfolding w2_def by blast
qed

lemma setElementSize_frame:
  shows "p_orientation (snd (setElementSize E w)) = p_orientation w"
    and "p_format (snd (setElementSize E w)) = p_format w"
    and "p_margins (snd (setElementSize E w)) = p_margins w"
    and "objects (snd (setElementSize E w)) = objects w"
    and "p_bbox (snd (setElementSize E w)) = p_bbox w"
    and "host_map (snd (setElementSize E w)) = host_map w"
    and "priv_map (snd (setElementSize E w)) = priv_map w"
    and "revision (snd (setElementSize E w)) = revision w"
    and "change_events (snd (setElementSize E w)) = change_events w"
    and "view_change_listeners (snd (setElementSize E w)) = view_change_listeners w"
    and "map_size_listeners (snd (setElementSize E w)) = map_size_listeners w"
    and "remove_once_handlers (snd (setElementSize E w)) = remove_once_handlers w"
proof -
  have "\<exists>h wd ar t b l r. snd (setElementSize E w) =
           w\<lparr>element_style_height := h, element_style_width := wd,
             element_style_aspectRatio := ar, printArea_style_top := t,
             printArea_style_bottom := b, printArea_style_left := l,
             printArea_style_right := r\<rparr>"
  proof (cases "PAPER_SIZE (p_format w) = None \<or> \<not> has_size w")
    case True
    have "w = w\<lparr>element_style_height := element_style_height w,
                 element_style_width := element_style_width w,
                 element_style_aspectRatio := element_style_aspectRatio w,
                 printArea_style_top := printArea_style_top w,
                 printArea_style_bottom := printArea_style_bottom w,
                 printArea_style_left := printArea_style_left w,
                 printArea_style_right := printArea_style_right w\<rparr>"
      by simp
    then show ?thesis
      unfolding setElementSize_unknown [OF True] snd_conv by blast
  next
    case False
    then obtain ps where "PAPER_SIZE (p_format w) = Some ps" and "has_size w" by auto
    from setElementSize_known [OF this, of E] show ?thesis
      by (metis snd_conv)
  qed
  then obtain h wd ar t b l r where "snd (setElementSize E w) =
           w\<lparr>element_style_height := h, element_style_width := wd,
             element_style_aspectRatio := ar, printArea_style_top := t,
             printArea_style_bottom := b, printArea_style_left := l,
             printArea_style_right := r\<rparr>"
    by blast
  then show "p_orientation (snd (setElementSize E w)) = p_orientation w"
    and "p_format (snd (setElementSize E w)) = p_format w"
    and "p_margins (snd (setElementSize E w)) = p_margins w"
    and "objects (snd (setElementSize E w)) = objects w"
    and "p_bbox (snd (setElementSize E w)) = p_bbox w"
    and "host_map (snd (setElementSize E w)) = host_map w"
    and "priv_map (snd (setElementSize E w)) = priv_map w"
    and "revision (snd (setElementSize E w)) = revision w"
    and "change_events (snd (setElementSize E w)) = change_events w"
    and "view_change_listeners (snd (setElementSize E w)) = view_change_listeners w"
    and "map_size_listeners (snd (setElementSize E w)) = map_size_listeners w"
    and "remove_once_handlers (snd (setElementSize E w)) = remove_once_handlers w"
    by simp_all
qed

lemma setElementSize_ok:
  "PAPER_SIZE (p_format w) = Some ps \<Longrightarrow> has_size w \<Longrightarrow> fst (setElementSize E w) = Inr ()"
  using setElementSize_known [of w ps E] by auto

lemma fst_and_then:
  "fst (and_then r f) = (case fst r of Inl e \<Rightarrow> Inl e | Inr u \<Rightarrow> fst (f (snd r)))"
  by (cases r) (auto simp: and_then_def split: sum.splits)

lemma snd_and_then:
  "snd (and_then r f) = (case fst r of Inl e \<Rightarrow> snd r | Inr u \<Rightarrow> snd (f (snd r)))"
  by (cases r) (auto simp: and_then_def split: sum.splits)
subsection \<open>What the render callback changes\<close>

lemma can_locate_host_map: "host_map w' = host_map w \<Longrightarrow> can_locate w' = can_locate w"
  by (simp add: can_locate_def)

lemma computeBbox_ok: "can_locate w \<Longrightarrow> \<exists>b. computeBbox E w = Inr b"
  by (auto simp: computeBbox_def can_locate_def Let_def split: option.splits)

lemma computeBbox_null:
  "host_map w = Some m \<Longrightarrow> getCoordinateFromPixel m = None \<Longrightarrow> computeBbox E w = Inl TypeError"
  by (simp add: computeBbox_def Let_def)

lemma onRender_attached:
  "host_map w = Some m \<Longrightarrow> priv_map w = Some (map_id m) \<Longrightarrow> onRender E w = (Inr (), w)"
  by (simp add: onRender_def)

lemma onRender_first:
  assumes "host_map w = Some m" and "priv_map w \<noteq> Some (map_id m)"
  shows "onRender E w =
     and_then (setElementSize E
         (w\<lparr>priv_map := Some (map_id m),
            view_change_listeners := view_change_listeners w @ [map_id m],
            map_size_listeners := map_size_listeners w @ [map_id m],
            remove_once_handlers := remove_once_handlers w @ [map_id m]\<rparr>))
       (\<lambda>w5. case computeBbox E w5 of
                Inl e \<Rightarrow> (Inl e, w5)
              | Inr b \<Rightarrow> (Inr (), w5\<lparr>p_bbox := b, change_events := change_events w5 + 1\<rparr>))"
  using assms by (auto simp: onRender_def Let_def)

lemma onRender_frame:
  assumes "host_map w = Some m"
  shows "priv_map (snd (onRender E w)) = Some (map_id m)"
    and "host_map (snd (onRender E w)) = Some m"
    and "p_orientation (snd (onRender E w)) = p_orientation w"
    and "p_format (snd (onRender E w)) = p_format w"
    and "p_margins (snd (onRender E w)) = p_margins w"
    and "objects (snd (onRender E w)) = objects w"
    and "view_change_listeners (snd (onRender E w)) =
           view_change_listeners w @ (if priv_map w = Some (map_id m) then [] else [map_id m])"
    and "map_size_listeners (snd (onRender E w)) =
           map_size_listeners w @ (if priv_map w = Some (map_id m) then [] else [map_id m])"
    and "remove_once_handlers (snd (onRender E w)) =
           remove_once_handlers w @ (if priv_map w = Some (map_id m) then [] else [map_id m])"
proof -
  show "priv_map (snd (onRender E w)) = Some (map_id m)"
    and "host_map (snd (onRender E w)) = Some m"
    and "p_orientation (snd (onRender E w)) = p_orientation w"
    and "p_format (snd (onRender E w)) = p_format w"
    and "p_margins (snd (onRender E w)) = p_margins w"
    and "objects (snd (onRender E w)) = objects w"
    and "view_change_listeners (snd (onRender E w)) =
           view_change_listeners w @ (if priv_map w = Some (map_id m) then [] else [map_id m])"
    and "map_size_listeners (snd (onRender E w)) =
           map_size_listeners w @ (if priv_map w = Some (map_id m) then [] else [map_id m])"
    and "remove_once_handlers (snd (onRender E w)) =
           remove_once_handlers w @ (if priv_map w = Some (map_id m) then [] else [map_id m])"
    using assms
    by (cases "priv_map w = Some (map_id m)";
        simp add: onRender_attached onRender_first snd_and_then setElementSize_frame
             split: sum.splits)+
qed

lemma onRender_ok:
  assumes "host_map w = Some m" and "PAPER_SIZE (p_format w) = Some ps" and "has_size w"
    and "can_locate w"
  shows "fst (onRender E w) = Inr ()"
proof (cases "priv_map w = Some (map_id m)")
  case True
  then show ?thesis using assms(1) by (simp add: onRender_attached)
next
  case False
  let ?w4 = "w\<lparr>priv_map := Some (map_id m),
            view_change_listeners := view_change_listeners w @ [map_id m],
            map_size_listeners := map_size_listeners w @ [map_id m],
            remove_once_handlers := remove_once_handlers w @ [map_id m]\<rparr>"
  have "has_size ?w4" using assms(3) by (simp add: has_size_def)
  then have e: "fst (setElementSize E ?w4) = Inr ()"
    using assms(2) by (simp add: setElementSize_ok)
  have "can_locate (snd (setElementSize E ?w4))"
    using assms(4) by (simp add: can_locate_def setElementSize_frame)
  then obtain b where "computeBbox E (snd (setElementSize E ?w4)) = Inr b"
    using computeBbox_ok by blast
  then show ?thesis
    using e by (simp add: onRender_first [OF assms(1) False] fst_and_then)
qed

lemma onRender_twice:
  assumes "host_map w = Some m"
  shows "onRender E (snd (onRender E w)) = (Inr (), snd (onRender E w))"
  using assms by (simp add: onRender_attached onRender_frame)

subsection \<open>The print sizes of the default configuration\<close>

text \<open>
  Claim C7. With format A4, orientation portrait and margins of 2 cm on every side,
  \<open>getPrintBoxSizeInMM\<close> returns 170 by 257 and \<open>getPrintBoxSizeInDots(192)\<close> returns
  1285 by 1943.
\<close>

theorem a4_portrait_example:
  assumes "paperFormat w = ascii ''A4''"
    and "paperOrientation w = ascii ''portrait''"
    and "margins w = \<lparr>m_top = 2, m_bottom = 2, m_left = 2, m_right = 2\<rparr>"
  shows "getPrintBoxSizeInMM w = Inr \<lparr>width = 170, height = 257\<rparr>
       \<and> getPrintBoxSizeInDots w (Some 192) = Inr \<lparr>width = 1285, height = 1943\<rparr>"
proof -
  have mm: "getPrintBoxSizeInMM w = Inr \<lparr>width = 170, height = 257\<rparr>"
    using assms by (simp add: getPrintBoxSizeInMM_def PAPER_SIZE_A4 ORIENTATION_PORTRAIT_def)
  have "Math_round (170 / INCH2MM * 192) = 1285" "Math_round (257 / INCH2MM * 192) = 1943"
    by (simp_all add: Math_round_def INCH2MM_def)
  with mm show ?thesis
    by (simp add: getPrintBoxSizeInDots_def)
qed

theorem a4_portrait_example_witness:
  "getPrintBoxSizeInMM (constructor None (holding no_margins))
     = Inr \<lparr>width = 170, height = 257\<rparr>
   \<and> getPrintBoxSizeInDots (constructor None (holding no_margins)) (Some 192)
     = Inr \<lparr>width = 1285, height = 1943\<rparr>"
  by (rule a4_portrait_example)
     (simp_all add: paperFormat_def paperOrientation_def margins_def constructor_None)

subsection \<open>The concrete scenario\<close>

lemma E0_simps [simp]:
  "unicode_upper E0 = scenario_upper"
  "element_getBoundingClientRect E0 = css_element_box"
  "printArea_getBoundingClientRect E0 = css_printArea_rect"
  "transformExtent E0 = proj_transformExtent"
  "getDistance E0 = sphere_getDistance"
  by (simp_all add: E0_def)

lemma host0_simps [simp]:
  "map_id host0 = 1" "getSize host0 = Some (800, 600)" "viewport_xy host0 = (0, 0)"
  "getCoordinateFromPixel host0 = Some (\<lambda>p. ((fst p - 400) * 1000, (300 - snd p) * 1000))"
  by (simp_all add: host0_def)

lemma constructor_fresh:
  "priv_map (constructor opts objs) = None"
  "host_map (constructor opts objs) = None"
  "p_bbox (constructor opts objs) = None"
  "view_change_listeners (constructor opts objs) = []"
  "map_size_listeners (constructor opts objs) = []"
  "remove_once_handlers (constructor opts objs) = []"
  by (simp_all add: constructor_def Let_def)

subsection \<open>Without a host map\<close>

text \<open>
  Claim C6. When the control has no host map, the \<open>bbox\<close> getter, the \<open>bboxAsLonLat\<close>
  getter and \<open>getPrintMapScaleDenominator\<close> return null, throw nothing and leave the state
  as it is, whatever format, orientation and margins are stored.
\<close>

theorem no_map_null:
  assumes "getMap w = None"
  shows "bbox E w = (Inr None, w)
       \<and> bboxAsLonLat E w = (Inr None, w)
       \<and> getPrintMapScaleDenominator E w = (Inr None, w)"
proof -
  have b: "bbox E w = (Inr None, w)" using assms by (simp add: bbox_def)
  then have l: "bboxAsLonLat E w = (Inr None, w)" by (simp add: bboxAsLonLat_def)
  then have "getPrintMapScaleDenominator E w = (Inr None, w)"
    by (simp add: getPrintMapScaleDenominator_def)
  with b l show ?thesis by simp
qed

theorem no_map_null_witness:
  "bbox E0 (constructor None (holding no_margins))
     = (Inr None, constructor None (holding no_margins))
   \<and> bboxAsLonLat E0 (constructor None (holding no_margins))
     = (Inr None, constructor None (holding no_margins))
   \<and> getPrintMapScaleDenominator E0 (constructor None (holding no_margins))
     = (Inr None, constructor None (holding no_margins))"
proof -
  have h: "getMap (constructor None (holding no_margins)) = None"
    by (simp add: constructor_fresh)
  show ?thesis by (rule no_map_null [OF h])
qed

subsection \<open>Rejected values\<close>

text \<open>
  The test of the setters is on the keys of the object literal. The known values are
  strings of ASCII, and their upper-case forms are the keys whatever the upper-case forms
  of the code points outside ASCII are: a string passes the test when its upper-case form
  is the upper-case form of one of the values.
\<close>

lemma toUpperCase_values:
  "map (toUpperCase U) (Object_values ORIENTATION) = map fst ORIENTATION"
  "map (toUpperCase U) (Object_values PAPER_FORMAT) = map fst PAPER_FORMAT"
  by (simp_all add: Object_values_def ORIENTATION_def PAPER_FORMAT_def toUpperCase_def
      upper_code_point_def ascii_def)

lemma has_key_iff: "has_key obj k \<longleftrightarrow> k \<in> set (map fst obj)"
  by (simp add: has_key_def map_of_eq_None_iff)

lemma has_key_values:
  "has_key ORIENTATION k \<longleftrightarrow> (\<exists>v\<in>set (Object_values ORIENTATION). k = toUpperCase U v)"
  "has_key PAPER_FORMAT k \<longleftrightarrow> (\<exists>v\<in>set (Object_values PAPER_FORMAT). k = toUpperCase U v)"
  unfolding has_key_iff toUpperCase_values [of U, symmetric] by auto

lemma join_comma_values:
  "join_comma (Object_values ORIENTATION) = ascii ''portrait,landscape''"
  "join_comma (Object_values PAPER_FORMAT) = ascii ''A4,A3,A2,A1,A0,LETTER,TABLOID,BROADSHEET''"
  by (simp_all add: Object_values_def ORIENTATION_def PAPER_FORMAT_def ascii_def)

text \<open>
  Claim C5, as the code has it. A string whose upper-case form, as \<open>toUpperCase\<close> gives it,
  is the upper-case form of no known orientation makes the \<open>paperOrientation\<close> setter throw
  an error whose message lists the orientations, and a string whose upper-case form is the
  upper-case form of no known format makes the \<open>paperFormat\<close> setter throw an error whose
  message lists the formats; the state when the error is thrown is the state before the
  call, configuration and derived state alike. This holds whatever the upper-case forms of
  the code points outside ASCII are.
\<close>

theorem invalid_value_rejected:
  "((\<forall>v\<in>set (Object_values ORIENTATION).
        toUpperCase (unicode_upper E) s \<noteq> toUpperCase (unicode_upper E) v) \<longrightarrow>
      set_paperOrientation E s w =
        (Inl (Error (ascii ''orientaion must be one of: portrait,landscape'')), w))
   \<and> ((\<forall>v\<in>set (Object_values PAPER_FORMAT).
        toUpperCase (unicode_upper E) s \<noteq> toUpperCase (unicode_upper E) v) \<longrightarrow>
      set_paperFormat E s w =
        (Inl (Error (ascii
           ''paperFormat must be on of: A4,A3,A2,A1,A0,LETTER,TABLOID,BROADSHEET'')), w))"
proof -
  have o: "ascii ''orientaion must be one of: '' @ join_comma (Object_values ORIENTATION)
      = ascii ''orientaion must be one of: portrait,landscape''"
    by (simp add: join_comma_values ascii_def)
  have f: "ascii ''paperFormat must be on of: '' @ join_comma (Object_values PAPER_FORMAT)
      = ascii ''paperFormat must be on of: A4,A3,A2,A1,A0,LETTER,TABLOID,BROADSHEET''"
    by (simp add: join_comma_values ascii_def)
  show ?thesis
    unfolding set_paperOrientation_def set_paperFormat_def o f
      has_key_values [of _ "unicode_upper E"]
    by auto
qed

theorem invalid_value_rejected_witness:
  "set_paperOrientation E0 (ascii ''A5'') (constructor None (holding no_margins)) =
     (Inl (Error (ascii ''orientaion must be one of: portrait,landscape'')),
      constructor None (holding no_margins))
   \<and> set_paperFormat E0 (ascii ''A5'') (constructor None (holding no_margins)) =
     (Inl (Error (ascii
        ''paperFormat must be on of: A4,A3,A2,A1,A0,LETTER,TABLOID,BROADSHEET'')),
      constructor None (holding no_margins))"
proof -
  have o: "\<forall>v\<in>set (Object_values ORIENTATION).
      toUpperCase (unicode_upper E0) (ascii ''A5'') \<noteq> toUpperCase (unicode_upper E0) v"
    by (simp add: Object_values_def ORIENTATION_def toUpperCase_def upper_code_point_def
        ascii_def)
  have f: "\<forall>v\<in>set (Object_values PAPER_FORMAT).
      toUpperCase (unicode_upper E0) (ascii ''A5'') \<noteq> toUpperCase (unicode_upper E0) v"
    by (simp add: Object_values_def PAPER_FORMAT_def toUpperCase_def upper_code_point_def
        ascii_def)
  show ?thesis
    using invalid_value_rejected [of E0 "ascii ''A5''" "constructor None (holding no_margins)"]
      o f
    by blast
qed

subsection \<open>The tail of a setter\<close>

lemma handleBboxChange_frame [simp]:
  "p_orientation (snd (handleBboxChange E w)) = p_orientation w"
  "p_format (snd (handleBboxChange E w)) = p_format w"
  "p_margins (snd (handleBboxChange E w)) = p_margins w"
  "objects (snd (handleBboxChange E w)) = objects w"
  "host_map (snd (handleBboxChange E w)) = host_map w"
  "priv_map (snd (handleBboxChange E w)) = priv_map w"
  by (simp_all add: handleBboxChange_def changed_def split: sum.splits)

lemma handleBboxChange_ok: "can_locate w \<Longrightarrow> fst (handleBboxChange E w) = Inr ()"
  using computeBbox_ok [of w E] by (auto simp: handleBboxChange_def)

lemma changed_frame [simp]:
  "p_orientation (changed w) = p_orientation w"
  "p_format (changed w) = p_format w"
  "p_margins (changed w) = p_margins w"
  "objects (changed w) = objects w"
  "p_bbox (changed w) = p_bbox w"
  "host_map (changed w) = host_map w"
  "priv_map (changed w) = priv_map w"
  by (simp_all add: changed_def)

text \<open>With an unknown format the layout throws at its first lookup, before any change.\<close>

lemma update_after_set_unknown:
  "PAPER_SIZE (p_format w) = None \<or> \<not> has_size w \<Longrightarrow>
     update_after_set E w = (Inl TypeError, w)"
  by (simp add: update_after_set_def setElementSize_unknown)

lemma update_after_set_no_map:
  assumes "PAPER_SIZE (p_format w) = Some ps" and "host_map w = None"
  shows "update_after_set E w = (Inr (), changed (snd (setElementSize E w)))"
proof -
  have "has_size w" using assms(2) by (simp add: has_size_def)
  then obtain w1 where s: "setElementSize E w = (Inr (), w1)"
    using setElementSize_known [OF assms(1), of E] by blast
  have "host_map w1 = None"
    using setElementSize_frame(6) [of E w] s assms(2) by simp
  then show ?thesis by (simp add: update_after_set_def s)
qed

text \<open>
  With a host that has no frame to convert pixels from, the setter throws when it computes
  the box, after the layout and the render callback.
\<close>

lemma update_after_set_null:
  assumes "PAPER_SIZE (p_format w) = Some ps" and "host_map w = Some m" and "has_size w"
    and "getCoordinateFromPixel m = None"
  shows "fst (update_after_set E w) = Inl TypeError"
proof -
  obtain w1 where s: "setElementSize E w = (Inr (), w1)"
    using setElementSize_known [OF assms(1,3), of E] by blast
  have h1: "host_map w1 = Some m"
    using setElementSize_frame(6) [of E w] s assms by simp
  have h2: "host_map (snd (onRender E w1)) = Some m"
    by (rule onRender_frame(2) [OF h1])
  have c: "computeBbox E (snd (onRender E w1)) = Inl TypeError"
    by (rule computeBbox_null [OF h2 assms(4)])
  show ?thesis
  proof (cases "fst (onRender E w1)")
    case (Inl e)
    have "priv_map w1 \<noteq> Some (map_id m)"
      using Inl onRender_attached [OF h1, of E] by auto
    then have "onRender E w1 =
       and_then (setElementSize E
         (w1\<lparr>priv_map := Some (map_id m),
            view_change_listeners := view_change_listeners w1 @ [map_id m],
            map_size_listeners := map_size_listeners w1 @ [map_id m],
            remove_once_handlers := remove_once_handlers w1 @ [map_id m]\<rparr>))
       (\<lambda>w5. case computeBbox E w5 of
                Inl e \<Rightarrow> (Inl e, w5)
              | Inr b \<Rightarrow> (Inr (), w5\<lparr>p_bbox := b, change_events := change_events w5 + 1\<rparr>))"
      by (rule onRender_first [OF h1])
    moreover have "PAPER_SIZE (p_format w1) = Some ps" "has_size w1"
      using setElementSize_frame(2,6) [of E w] s assms(1,3) by (simp_all add: has_size_def)
    then have "fst (setElementSize E
         (w1\<lparr>priv_map := Some (map_id m),
            view_change_listeners := view_change_listeners w1 @ [map_id m],
            map_size_listeners := map_size_listeners w1 @ [map_id m],
            remove_once_handlers := remove_once_handlers w1 @ [map_id m]\<rparr>)) = Inr ()"
      by (intro setElementSize_ok [where ps = ps]) (simp_all add: has_size_def)
    moreover have "computeBbox E w5 = Inl TypeError" if "host_map w5 = Some m" for w5
      by (rule computeBbox_null [OF that assms(4)])
    ultimately have "fst (onRender E w1) = Inl TypeError"
      using h1 by (simp add: fst_and_then setElementSize_frame)
    then show ?thesis
      by (simp add: update_after_set_def s h1 renderSync_def fst_and_then)
  next
    case (Inr u)
    then show ?thesis
      using c by (simp add: update_after_set_def s h1 renderSync_def fst_and_then
          handleBboxChange_def)
  qed
qed

lemma update_after_set_map:
  assumes "PAPER_SIZE (p_format w) = Some ps" and "host_map w = Some m" and "has_size w"
    and "can_locate w"
  shows "update_after_set E w =
     (Inr (), changed (snd (handleBboxChange E (snd (onRender E (snd (setElementSize E w)))))))"
proof -
  obtain w1 where s: "setElementSize E w = (Inr (), w1)"
    using setElementSize_known [OF assms(1,3), of E] by blast
  have h1: "host_map w1 = Some m" and f1: "PAPER_SIZE (p_format w1) = Some ps"
    using setElementSize_frame(2,6) [of E w] s assms by simp_all
  have s1: "has_size w1" using assms(2,3) h1 by (simp add: has_size_def)
  have c1: "can_locate w1" using assms(2,4) h1 by (simp add: can_locate_def)
  have "fst (onRender E w1) = Inr ()" by (rule onRender_ok [OF h1 f1 s1 c1])
  then obtain w2 where r: "onRender E w1 = (Inr (), w2)"
    by (cases "onRender E w1") auto
  have "host_map w2 = Some m"
    using onRender_frame(2) [OF h1, of E] r by simp
  then have "can_locate w2" using assms(2,4) by (simp add: can_locate_def)
  then have "fst (handleBboxChange E w2) = Inr ()" by (rule handleBboxChange_ok)
  then obtain w3 where b: "handleBboxChange E w2 = (Inr (), w3)"
    by (cases "handleBboxChange E w2") auto
  show ?thesis by (simp add: update_after_set_def s h1 r b renderSync_def)
qed

lemma update_after_set_ok:
  assumes "PAPER_SIZE (p_format w) = Some ps" and "has_size w" and "can_locate w"
  shows "fst (update_after_set E w) = Inr ()"
proof (cases "host_map w")
  case None
  then show ?thesis by (simp add: update_after_set_no_map [OF assms(1)])
next
  case (Some m)
  then show ?thesis by (simp add: update_after_set_map [OF assms(1) Some assms(2,3)])
qed

lemma update_after_set_frame:
  shows "p_orientation (snd (update_after_set E w)) = p_orientation w"
    and "p_format (snd (update_after_set E w)) = p_format w"
    and "p_margins (snd (update_after_set E w)) = p_margins w"
    and "objects (snd (update_after_set E w)) = objects w"
    and "host_map (snd (update_after_set E w)) = host_map w"
proof -
  let ?w1 = "snd (setElementSize E w)"
  have "p_orientation (snd (update_after_set E w)) = p_orientation w
      \<and> p_format (snd (update_after_set E w)) = p_format w
      \<and> p_margins (snd (update_after_set E w)) = p_margins w
      \<and> objects (snd (update_after_set E w)) = objects w
      \<and> host_map (snd (update_after_set E w)) = host_map w"
  proof (cases "host_map w")
    case None
    then show ?thesis
      by (simp add: update_after_set_def snd_and_then setElementSize_frame
          split: sum.splits)
  next
    case (Some m)
    then have h1: "host_map ?w1 = Some m" by (simp add: setElementSize_frame)
    show ?thesis
      using Some onRender_frame(2-6) [OF h1, of E]
      by (simp add: update_after_set_def snd_and_then setElementSize_frame renderSync_def
          split: sum.splits)
  qed
  then show "p_orientation (snd (update_after_set E w)) = p_orientation w"
    and "p_format (snd (update_after_set E w)) = p_format w"
    and "p_margins (snd (update_after_set E w)) = p_margins w"
    and "objects (snd (update_after_set E w)) = objects w"
    and "host_map (snd (update_after_set E w)) = host_map w"
    by simp_all
qed

subsection \<open>The orientation setter\<close>

lemma toUpperCase_portrait: "toUpperCase U (ascii ''portrait'') = ascii ''PORTRAIT''"
  by (simp add: toUpperCase_def upper_code_point_def ascii_def)

lemma toUpperCase_landscape: "toUpperCase U (ascii ''landscape'') = ascii ''LANDSCAPE''"
  by (simp add: toUpperCase_def upper_code_point_def ascii_def)

lemma set_paperOrientation_accepted:
  assumes "has_key ORIENTATION (toUpperCase (unicode_upper E) s)"
  shows "p_orientation (snd (set_paperOrientation E s w)) = toUpperCase (unicode_upper E) s"
    and "p_format (snd (set_paperOrientation E s w)) = p_format w"
    and "p_margins (snd (set_paperOrientation E s w)) = p_margins w"
    and "objects (snd (set_paperOrientation E s w)) = objects w"
    and "PAPER_SIZE (p_format w) \<noteq> None \<Longrightarrow> has_size w \<Longrightarrow> can_locate w \<Longrightarrow>
           fst (set_paperOrientation E s w) = Inr ()"
  using assms
  by (auto simp: set_paperOrientation_def update_after_set_frame update_after_set_ok
      has_size_def can_locate_def)

lemma set_paperFormat_accepted:
  assumes "has_key PAPER_FORMAT (toUpperCase (unicode_upper E) s)"
  shows "p_format (snd (set_paperFormat E s w)) = toUpperCase (unicode_upper E) s"
    and "PAPER_SIZE (toUpperCase (unicode_upper E) s) \<noteq> None \<Longrightarrow> has_size w \<Longrightarrow>
           can_locate w \<Longrightarrow> fst (set_paperFormat E s w) = Inr ()"
  using assms
  by (auto simp: set_paperFormat_def update_after_set_frame update_after_set_ok
      has_size_def can_locate_def)

lemma default_control:
  "PAPER_SIZE (p_format (constructor None objs)) \<noteq> None"
  "has_size (constructor None objs)"
  "can_locate (constructor None objs)"
  by (simp_all add: constructor_None PAPER_SIZE_A4 has_size_def can_locate_def
      constructor_fresh)

text \<open>
  Claim C2. An accepted orientation should be stored in its canonical form, one of the
  values \<open>portrait\<close> and \<open>landscape\<close>. On the code the setter stores the upper-case string it
  tested against the keys: on a control built with the defaults, assigning \<open>portrait\<close>
  succeeds and the getter then returns \<open>PORTRAIT\<close>, which is none of the known values.
\<close>

theorem setter_stores_upper_case_key:
  "fst (set_paperOrientation E0 (ascii ''portrait'') (constructor None (holding no_margins)))
     = Inr ()
   \<and> paperOrientation
       (snd (set_paperOrientation E0 (ascii ''portrait'') (constructor None (holding no_margins))))
       = ascii ''PORTRAIT''
   \<and> ascii ''PORTRAIT'' \<notin> set (Object_values ORIENTATION)"
proof -
  have k: "has_key ORIENTATION (toUpperCase (unicode_upper E0) (ascii ''portrait''))"
    by (simp add: toUpperCase_portrait has_key_def ORIENTATION_def)
  show ?thesis
    using set_paperOrientation_accepted(1) [OF k]
      set_paperOrientation_accepted(5) [OF k default_control]
    by (simp add: toUpperCase_portrait Object_values_def ORIENTATION_def)
qed

text \<open>
  Claim C1. After the setter has stored \<open>portrait\<close> the width of the print box should come
  from the short edge of the paper. On the code it comes from the long edge: the default
  control gives 170 by 257, and after assigning \<open>portrait\<close>, directly or after \<open>landscape\<close>,
  \<open>getPrintBoxSizeInMM\<close> gives 257 by 170, because the stored \<open>PORTRAIT\<close> is not the
  \<open>portrait\<close> the function compares with.
\<close>

theorem portrait_by_setter_is_landscape:
  "getPrintBoxSizeInMM (constructor None (holding no_margins))
     = Inr \<lparr>width = 170, height = 257\<rparr>
   \<and> getPrintBoxSizeInMM
       (snd (set_paperOrientation E0 (ascii ''portrait'') (constructor None (holding no_margins))))
       = Inr \<lparr>width = 257, height = 170\<rparr>
   \<and> getPrintBoxSizeInMM (snd (set_paperOrientation E0 (ascii ''portrait'')
         (snd (set_paperOrientation E0 (ascii ''landscape'')
            (constructor None (holding no_margins))))))
       = Inr \<lparr>width = 257, height = 170\<rparr>"
proof -
  have k: "has_key ORIENTATION (toUpperCase (unicode_upper E0) (ascii ''portrait''))"
    by (simp add: toUpperCase_portrait has_key_def ORIENTATION_def)
  have l: "has_key ORIENTATION (toUpperCase (unicode_upper E0) (ascii ''landscape''))"
    by (simp add: toUpperCase_landscape has_key_def ORIENTATION_def)
  show ?thesis
    by (simp add: getPrintBoxSizeInMM_def set_paperOrientation_accepted(1-4) [OF k]
        set_paperOrientation_accepted(2-4) [OF l] constructor_None PAPER_SIZE_A4
        toUpperCase_portrait ORIENTATION_PORTRAIT_def margins_def)
qed

text \<open>
  Claim C5 as stated fails. The strings \<open>portra\<close>, U+0131, \<open>t\<close> and \<open>tablo\<close>, U+0131, \<open>d\<close>
  match no known orientation and no known format case-insensitively: the dotless i has no
  case folding. Its upper-case form is I, so the setters accept them: on a control built
  with the defaults each assignment succeeds and changes the stored value.
\<close>

theorem dotless_i_accepted:
  "\<not> caseless_match scenario_fold (ascii ''portra'' @ [0x131] @ ascii ''t'') (ascii ''portrait'')
   \<and> \<not> caseless_match scenario_fold (ascii ''portra'' @ [0x131] @ ascii ''t'') (ascii ''landscape'')
   \<and> set_paperOrientation E0 (ascii ''portra'' @ [0x131] @ ascii ''t'')
       (constructor None (holding no_margins))
       \<noteq> (Inl (Error (ascii ''orientaion must be one of: portrait,landscape'')),
           constructor None (holding no_margins))
   \<and> fst (set_paperOrientation E0 (ascii ''portra'' @ [0x131] @ ascii ''t'')
       (constructor None (holding no_margins))) = Inr ()
   \<and> paperOrientation (constructor None (holding no_margins)) = ascii ''portrait''
   \<and> paperOrientation (snd (set_paperOrientation E0 (ascii ''portra'' @ [0x131] @ ascii ''t'')
       (constructor None (holding no_margins)))) = ascii ''PORTRAIT''
   \<and> fst (set_paperFormat E0 (ascii ''tablo'' @ [0x131] @ ascii ''d'')
       (constructor None (holding no_margins))) = Inr ()
   \<and> paperFormat (constructor None (holding no_margins)) = ascii ''A4''
   \<and> paperFormat (snd (set_paperFormat E0 (ascii ''tablo'' @ [0x131] @ ascii ''d'')
       (constructor None (holding no_margins)))) = ascii ''TABLOID''"
proof -
  have u: "toUpperCase (unicode_upper E0) (ascii ''portra'' @ [0x131] @ ascii ''t'')
      = ascii ''PORTRAIT''"
    by (simp add: toUpperCase_def upper_code_point_def scenario_upper_def ascii_def)
  have v: "toUpperCase (unicode_upper E0) (ascii ''tablo'' @ [0x131] @ ascii ''d'')
      = ascii ''TABLOID''"
    by (simp add: toUpperCase_def upper_code_point_def scenario_upper_def ascii_def)
  have k: "has_key ORIENTATION
      (toUpperCase (unicode_upper E0) (ascii ''portra'' @ [0x131] @ ascii ''t''))"
    unfolding u by (simp add: has_key_def ORIENTATION_def)
  have f: "has_key PAPER_FORMAT
      (toUpperCase (unicode_upper E0) (ascii ''tablo'' @ [0x131] @ ascii ''d''))"
    unfolding v by (simp add: has_key_def PAPER_FORMAT_def)
  have t: "PAPER_SIZE
      (toUpperCase (unicode_upper E0) (ascii ''tablo'' @ [0x131] @ ascii ''d'')) \<noteq> None"
    unfolding v by (simp add: PAPER_SIZE_def)
  have m: "\<not> caseless_match scenario_fold
             (ascii ''portra'' @ [0x131] @ ascii ''t'') (ascii ''portrait'')"
    "\<not> caseless_match scenario_fold
             (ascii ''portra'' @ [0x131] @ ascii ''t'') (ascii ''landscape'')"
    by (simp_all add: caseless_match_def fold_code_point_def scenario_fold_def ascii_def)
  have ok: "fst (set_paperOrientation E0 (ascii ''portra'' @ [0x131] @ ascii ''t'')
       (constructor None (holding no_margins))) = Inr ()"
    by (rule set_paperOrientation_accepted(5) [OF k default_control])
  then have "set_paperOrientation E0 (ascii ''portra'' @ [0x131] @ ascii ''t'')
       (constructor None (holding no_margins))
       \<noteq> (Inl (Error (ascii ''orientaion must be one of: portrait,landscape'')),
           constructor None (holding no_margins))"
    by auto
  then show ?thesis
    using m ok u v set_paperOrientation_accepted(1) [OF k]
      set_paperFormat_accepted(1) [OF f]
      set_paperFormat_accepted(2) [OF f t default_control(2,3)]
    by (simp add: constructor_None)
qed

subsection \<open>Margins\<close>

text \<open>
  Claim C3. Every stored margin should be at least zero in every state reachable by
  construction and setter calls. On the code the constructor stores the margins of its
  options as they are: built with a top margin of -1, the control holds -1.
\<close>

theorem constructor_keeps_negative_margin:
  "m_top (margins (constructor
       (Some \<lparr>opt_margins = Some (Obj 0), opt_format = None, opt_orientation = None\<rparr>)
       (holding \<lparr>m_top = - 1, m_bottom = 2, m_left = 2, m_right = 2\<rparr>))) = - 1"
  by (simp add: constructor_def holding_def margins_def)

text \<open>
  The setters keep the margins at or above zero: the margins setter stores no negative
  field and the other two leave the margins alone. A control built with the default
  margins, or with margins that are not negative, therefore holds no negative one after
  any sequence of assignments, as long as the caller does not write to the object stored.
\<close>

lemma set_margins_stored:
  assumes "\<not> obj_frozen (objects w r)"
  shows "p_margins (snd (set_margins E (Some r) w)) = r"
    and "objects (snd (set_margins E (Some r) w)) =
           (objects w)(r := (objects w r)\<lparr>obj_fields := no_negative (obj_fields (objects w r))\<rparr>)"
    and "margins (snd (set_margins E (Some r) w)) = no_negative (obj_fields (objects w r))"
  using assms by (simp_all add: set_margins_def update_after_set_frame margins_def)

lemma set_margins_frozen:
  "obj_frozen (objects w r) \<Longrightarrow> set_margins E (Some r) w = (Inl TypeError, w)"
  by (simp add: set_margins_def)

lemma assign_non_negative:
  assumes "non_negative (margins w)"
  shows "non_negative (margins (assign E c w))"
proof (cases c)
  case (Assign_paperOrientation s)
  then show ?thesis
    using assms by (simp add: set_paperOrientation_def update_after_set_frame margins_def)
next
  case (Assign_paperFormat s)
  then show ?thesis
    using assms by (simp add: set_paperFormat_def update_after_set_frame margins_def)
next
  case (Assign_margins a)
  show ?thesis
  proof (cases a)
    case None
    then show ?thesis using assms Assign_margins by (simp add: set_margins_def)
  next
    case (Some r)
    show ?thesis
    proof (cases "obj_frozen (objects w r)")
      case True
      then show ?thesis using assms Assign_margins Some by (simp add: set_margins_frozen)
    next
      case False
      have "non_negative (no_negative m)" for m
        by (simp add: non_negative_def no_negative_def)
      then show ?thesis
        using Assign_margins Some set_margins_stored(3) [OF False, of E] by simp
    qed
  qed
qed

lemma assign_all_non_negative:
  "non_negative (margins w) \<Longrightarrow> non_negative (margins (assign_all E cs w))"
  by (induction cs arbitrary: w) (simp_all add: assign_non_negative)

lemma default_margins_non_negative:
  "non_negative (margins (assign_all E cs (constructor None objs)))"
  by (rule assign_all_non_negative) (simp add: constructor_None non_negative_def margins_def)

lemma no_negative_max:
  "m_top (no_negative m) = max 0 (m_top m)"
  "m_bottom (no_negative m) = max 0 (m_bottom m)"
  "m_left (no_negative m) = max 0 (m_left m)"
  "m_right (no_negative m) = max 0 (m_right m)"
  by (simp_all add: no_negative_def max_def)

text \<open>
  The control stores the object it was given, not a copy: what the caller writes to it
  after the call is what the getter returns, a negative field included.
\<close>

lemma stored_margins_follow_caller:
  assumes "\<not> obj_frozen (objects w r)"
  shows "margins (caller_writes r m (snd (set_margins E (Some r) w))) = m"
  using assms by (simp add: caller_writes_def set_margins_stored margins_def)

text \<open>
  Claim C4, as the code has it. An undefined argument leaves the state as it is and throws
  nothing. A margins record that is frozen makes the setter throw a TypeError at its first
  write, with the state as it was. An ordinary margins record, whose fields can be written,
  is stored, the record itself, with each negative field replaced by 0 and each other field
  as given; this holds whether the call then throws or not. The call throws nothing when
  the record is an ordinary one, the stored paper format is a key of the paper-size table
  and the host map, if there is one, has a size and converts pixels to coordinates.
\<close>

theorem margins_setter_clamps:
  "set_margins E None w = (Inr (), w)
   \<and> (obj_frozen (objects w r) \<longrightarrow> set_margins E (Some r) w = (Inl TypeError, w))
   \<and> (\<not> obj_frozen (objects w r) \<longrightarrow>
        p_margins (snd (set_margins E (Some r) w)) = r
        \<and> m_top (margins (snd (set_margins E (Some r) w)))
            = (if m_top (obj_fields (objects w r)) < 0 then 0
               else m_top (obj_fields (objects w r)))
        \<and> m_bottom (margins (snd (set_margins E (Some r) w)))
            = (if m_bottom (obj_fields (objects w r)) < 0 then 0
               else m_bottom (obj_fields (objects w r)))
        \<and> m_left (margins (snd (set_margins E (Some r) w)))
            = (if m_left (obj_fields (objects w r)) < 0 then 0
               else m_left (obj_fields (objects w r)))
        \<and> m_right (margins (snd (set_margins E (Some r) w)))
            = (if m_right (obj_fields (objects w r)) < 0 then 0
               else m_right (obj_fields (objects w r))))
   \<and> (\<not> obj_frozen (objects w r) \<and> PAPER_SIZE (paperFormat w) \<noteq> None \<and> has_size w
        \<and> can_locate w \<longrightarrow>
        fst (set_margins E (Some r) w) = Inr ())"
proof -
  have none: "set_margins E None w = (Inr (), w)"
    by (simp add: set_margins_def)
  have ok: "fst (set_margins E (Some r) w) = Inr ()"
    if loose: "\<not> obj_frozen (objects w r)" and known: "PAPER_SIZE (paperFormat w) \<noteq> None"
      and sized: "has_size w" and located: "can_locate w"
  proof -
    let ?w1 = "w\<lparr>objects := (objects w)
        (r := (objects w r)\<lparr>obj_fields := no_negative (obj_fields (objects w r))\<rparr>),
      p_margins := r\<rparr>"
    obtain ps where "PAPER_SIZE (p_format ?w1) = Some ps" using known by auto
    moreover have "has_size ?w1" using sized by (simp add: has_size_def)
    moreover have "can_locate ?w1" using located by (simp add: can_locate_def)
    ultimately have "fst (update_after_set E ?w1) = Inr ()" by (rule update_after_set_ok)
    then show ?thesis using loose by (simp add: set_margins_def)
  qed
  show ?thesis
    using none ok
    by (simp add: set_margins_frozen set_margins_stored no_negative_def)
qed

theorem margins_setter_clamps_witness:
  "set_margins E0 None
       (setMap (Some host0) (constructor None
          ((holding \<lparr>m_top = - 1, m_bottom = 3, m_left = 0, m_right = 2\<rparr>)
             (Obj 1 := \<lparr>obj_fields = no_margins, obj_frozen = True\<rparr>))))
     = (Inr (), setMap (Some host0) (constructor None
          ((holding \<lparr>m_top = - 1, m_bottom = 3, m_left = 0, m_right = 2\<rparr>)
             (Obj 1 := \<lparr>obj_fields = no_margins, obj_frozen = True\<rparr>))))
   \<and> set_margins E0 (Some (Obj 1))
       (setMap (Some host0) (constructor None
          ((holding \<lparr>m_top = - 1, m_bottom = 3, m_left = 0, m_right = 2\<rparr>)
             (Obj 1 := \<lparr>obj_fields = no_margins, obj_frozen = True\<rparr>))))
     = (Inl TypeError, setMap (Some host0) (constructor None
          ((holding \<lparr>m_top = - 1, m_bottom = 3, m_left = 0, m_right = 2\<rparr>)
             (Obj 1 := \<lparr>obj_fields = no_margins, obj_frozen = True\<rparr>))))
   \<and> fst (set_margins E0 (Some (Obj 0))
       (setMap (Some host0) (constructor None
          ((holding \<lparr>m_top = - 1, m_bottom = 3, m_left = 0, m_right = 2\<rparr>)
             (Obj 1 := \<lparr>obj_fields = no_margins, obj_frozen = True\<rparr>))))) = Inr ()
   \<and> p_margins (snd (set_margins E0 (Some (Obj 0))
       (setMap (Some host0) (constructor None
          ((holding \<lparr>m_top = - 1, m_bottom = 3, m_left = 0, m_right = 2\<rparr>)
             (Obj 1 := \<lparr>obj_fields = no_margins, obj_frozen = True\<rparr>)))))) = Obj 0
   \<and> margins (snd (set_margins E0 (Some (Obj 0))
       (setMap (Some host0) (constructor None
          ((holding \<lparr>m_top = - 1, m_bottom = 3, m_left = 0, m_right = 2\<rparr>)
             (Obj 1 := \<lparr>obj_fields = no_margins, obj_frozen = True\<rparr>))))))
     = \<lparr>m_top = 0, m_bottom = 3, m_left = 0, m_right = 2\<rparr>"
proof -
  let ?w = "setMap (Some host0) (constructor None
          ((holding \<lparr>m_top = - 1, m_bottom = 3, m_left = 0, m_right = 2\<rparr>)
             (Obj 1 := \<lparr>obj_fields = no_margins, obj_frozen = True\<rparr>)))"
  have o: "objects ?w (Obj 0)
      = \<lparr>obj_fields = \<lparr>m_top = - 1, m_bottom = 3, m_left = 0, m_right = 2\<rparr>,
         obj_frozen = False\<rparr>"
    "objects ?w (Obj 1) = \<lparr>obj_fields = no_margins, obj_frozen = True\<rparr>"
    by (simp_all add: setMap_def constructor_def holding_def)
  have f: "PAPER_SIZE (paperFormat ?w) \<noteq> None"
    by (simp add: setMap_def constructor_None PAPER_SIZE_A4)
  have z: "has_size ?w" "can_locate ?w"
    by (simp_all add: has_size_def can_locate_def setMap_def)
  show ?thesis
    using margins_setter_clamps [of E0 ?w "Obj 0"] margins_setter_clamps [of E0 ?w "Obj 1"]
      o f z
    by (simp add: margins.equality)
qed

text \<open>
  Claim C4 as stated fails: the setter throws a TypeError on a control built with the
  format \<open>a4\<close>, which the constructor stores without the test of the \<open>paperFormat\<close> setter,
  on a default control attached to a host map that has no size, on a default control
  attached to a host map that has no frame to convert pixels from, and when the record it
  is given is frozen.
\<close>

theorem margins_setter_throws:
  "paperFormat (constructor
       (Some \<lparr>opt_margins = None, opt_format = Some (ascii ''a4''), opt_orientation = None\<rparr>)
       (holding \<lparr>m_top = 1, m_bottom = 1, m_left = 1, m_right = 1\<rparr>)) = ascii ''a4''
   \<and> fst (set_margins E0 (Some (Obj 0))
       (constructor
          (Some \<lparr>opt_margins = None, opt_format = Some (ascii ''a4''), opt_orientation = None\<rparr>)
          (holding \<lparr>m_top = 1, m_bottom = 1, m_left = 1, m_right = 1\<rparr>))) = Inl TypeError
   \<and> fst (set_margins E0 (Some (Obj 0))
       (setMap (Some (host0\<lparr>getSize := None\<rparr>))
          (constructor None (holding \<lparr>m_top = 1, m_bottom = 1, m_left = 1, m_right = 1\<rparr>))))
       = Inl TypeError
   \<and> fst (set_margins E0 (Some (Obj 0))
       (setMap (Some (host0\<lparr>getSize := Some (800, 0), getCoordinateFromPixel := None\<rparr>))
          (constructor None (holding \<lparr>m_top = 1, m_bottom = 1, m_left = 1, m_right = 1\<rparr>))))
       = Inl TypeError
   \<and> fst (set_margins E0 (Some (Obj 0))
       (constructor None
          ((holding \<lparr>m_top = 1, m_bottom = 1, m_left = 1, m_right = 1\<rparr>)
             (Obj 0 := \<lparr>obj_fields = \<lparr>m_top = 1, m_bottom = 1, m_left = 1, m_right = 1\<rparr>,
                        obj_frozen = True\<rparr>)))) = Inl TypeError"
proof -
  let ?m = "\<lparr>m_top = 1, m_bottom = 1, m_left = 1, m_right = 1\<rparr>"
  let ?a4 = "constructor
       (Some \<lparr>opt_margins = None, opt_format = Some (ascii ''a4''), opt_orientation = None\<rparr>)
       (holding ?m)"
  have a4: "p_format ?a4 = ascii ''a4''" "\<not> obj_frozen (objects ?a4 (Obj 0))"
    by (simp_all add: constructor_def holding_def)
  have unknown: "PAPER_SIZE (ascii ''a4'') = None" by (simp add: PAPER_SIZE_def)
  have first: "fst (set_margins E0 (Some (Obj 0)) ?a4) = Inl TypeError"
    using a4 unknown by (simp add: set_margins_def update_after_set_unknown)
  let ?unsized = "setMap (Some (host0\<lparr>getSize := None\<rparr>)) (constructor None (holding ?m))"
  have unsized: "\<not> obj_frozen (objects ?unsized (Obj 0))"
    "\<not> has_size (?unsized\<lparr>objects := x, p_margins := y\<rparr>)" for x y
    by (simp_all add: has_size_def setMap_def constructor_def holding_def)
  have second: "fst (set_margins E0 (Some (Obj 0)) ?unsized) = Inl TypeError"
    using unsized by (simp add: set_margins_def update_after_set_unknown)
  let ?h = "host0\<lparr>getSize := Some (800, 0), getCoordinateFromPixel := None\<rparr>"
  let ?flat = "setMap (Some ?h) (constructor None (holding ?m))"
  have flat: "\<not> obj_frozen (objects ?flat (Obj 0))"
    by (simp add: setMap_def constructor_def holding_def)
  have "fst (update_after_set E0 (?flat\<lparr>objects := x, p_margins := y\<rparr>)) = Inl TypeError"
    for x y
    by (rule update_after_set_null [where m = ?h and ps = "\<lparr>short = 210, long = 297\<rparr>"])
       (simp_all add: setMap_def constructor_None PAPER_SIZE_A4 has_size_def)
  then have third: "fst (set_margins E0 (Some (Obj 0)) ?flat) = Inl TypeError"
    using flat by (simp add: set_margins_def)
  have fourth: "fst (set_margins E0 (Some (Obj 0))
       (constructor None
          ((holding ?m)(Obj 0 := \<lparr>obj_fields = ?m, obj_frozen = True\<rparr>)))) = Inl TypeError"
    by (simp add: set_margins_def constructor_def)
  show ?thesis
    using first second third fourth by (simp add: a4)
qed

subsection \<open>The bounding box getters\<close>






subsection \<open>The library functions of the scenario\<close>







subsection \<open>The two states of the scenario\<close>




subsection \<open>The scale denominator\<close>




subsection \<open>The attach guard of the render callback\<close>

lemma handleBboxChange_listeners [simp]:
  "view_change_listeners (snd (handleBboxChange E w)) = view_change_listeners w"
  "map_size_listeners (snd (handleBboxChange E w)) = map_size_listeners w"
  "remove_once_handlers (snd (handleBboxChange E w)) = remove_once_handlers w"
  by (simp_all add: handleBboxChange_def changed_def split: sum.splits)

lemma changed_listeners [simp]:
  "view_change_listeners (changed w) = view_change_listeners w"
  "map_size_listeners (changed w) = map_size_listeners w"
  "remove_once_handlers (changed w) = remove_once_handlers w"
  by (simp_all add: changed_def)

text \<open>
  The attachment: the held map is the host, and the registrations made so far.
\<close>

lemma update_after_set_attached:
  assumes "host_map w = Some m" and "priv_map w = Some (map_id m)"
  shows "host_map (snd (update_after_set E w)) = Some m"
    and "priv_map (snd (update_after_set E w)) = Some (map_id m)"
    and "view_change_listeners (snd (update_after_set E w)) = view_change_listeners w"
    and "map_size_listeners (snd (update_after_set E w)) = map_size_listeners w"
    and "remove_once_handlers (snd (update_after_set E w)) = remove_once_handlers w"
proof -
  have "host_map (snd (update_after_set E w)) = Some m
      \<and> priv_map (snd (update_after_set E w)) = Some (map_id m)
      \<and> view_change_listeners (snd (update_after_set E w)) = view_change_listeners w
      \<and> map_size_listeners (snd (update_after_set E w)) = map_size_listeners w
      \<and> remove_once_handlers (snd (update_after_set E w)) = remove_once_handlers w"
  proof -
    let ?w1 = "snd (setElementSize E w)"
    have h1: "host_map ?w1 = Some m" and p1: "priv_map ?w1 = Some (map_id m)"
      using assms by (simp_all add: setElementSize_frame)
    have "onRender E ?w1 = (Inr (), ?w1)" by (rule onRender_attached [OF h1 p1])
    then show ?thesis
      using assms
      by (simp add: update_after_set_def snd_and_then renderSync_def setElementSize_frame
          split: sum.splits)
  qed
  then show "host_map (snd (update_after_set E w)) = Some m"
    and "priv_map (snd (update_after_set E w)) = Some (map_id m)"
    and "view_change_listeners (snd (update_after_set E w)) = view_change_listeners w"
    and "map_size_listeners (snd (update_after_set E w)) = map_size_listeners w"
    and "remove_once_handlers (snd (update_after_set E w)) = remove_once_handlers w"
    by simp_all
qed

lemma step_attached:
  assumes "host_map w = Some m" and "priv_map w = Some (map_id m)"
  shows "host_map (step E ev w) = Some m \<and> priv_map (step E ev w) = Some (map_id m)
       \<and> view_change_listeners (step E ev w) = view_change_listeners w
       \<and> map_size_listeners (step E ev w) = map_size_listeners w
       \<and> remove_once_handlers (step E ev w) = remove_once_handlers w"
proof (cases ev)
  case Render
  then show ?thesis using assms by (simp add: onRender_attached)
next
  case (Assign c)
  show ?thesis
  proof (cases c)
    case (Assign_paperOrientation s)
    then show ?thesis
      using assms Assign
        update_after_set_attached
          [of "w\<lparr>p_orientation := toUpperCase (unicode_upper E) s\<rparr>" m E]
      by (simp add: set_paperOrientation_def)
  next
    case (Assign_paperFormat s)
    then show ?thesis
      using assms Assign
        update_after_set_attached
          [of "w\<lparr>p_format := toUpperCase (unicode_upper E) s\<rparr>" m E]
      by (simp add: set_paperFormat_def)
  next
    case (Assign_margins a)
    then show ?thesis
      using assms Assign
        update_after_set_attached [of "w\<lparr>objects := x, p_margins := y\<rparr>" m E for x y]
      by (cases a) (simp_all add: set_margins_def)
  qed
qed

lemma run_attached:
  assumes "host_map w = Some m" and "priv_map w = Some (map_id m)"
  shows "host_map (run E evs w) = Some m \<and> priv_map (run E evs w) = Some (map_id m)
       \<and> view_change_listeners (run E evs w) = view_change_listeners w
       \<and> map_size_listeners (run E evs w) = map_size_listeners w
       \<and> remove_once_handlers (run E evs w) = remove_once_handlers w"
  using assms
proof (induction evs arbitrary: w)
  case Nil
  then show ?case by simp
next
  case (Cons ev evs)
  from step_attached [OF Cons.prems, of E ev] Cons.IH [of "step E ev w"]
  show ?case by simp
qed

lemma run_renders:
  assumes "host_map w = Some m" and "priv_map w = Some (map_id m)"
  shows "run E (replicate n Render) w = w"
  using assms by (induction n) (simp_all add: onRender_attached)

text \<open>
  Claim C9. While the control is attached to a host map, a render callback that finds the
  held map identical to the host registers nothing and changes nothing. After the first
  callback on a host every further one is a no-op: any number of callbacks leaves the state
  the first one reached, and any sequence of callbacks and assignments leaves the
  registrations of the first one, which are one view-change listener, one size-change
  listener and one removal handler more than before when the host was new, and none more
  when it was already held.
\<close>

theorem render_registers_once:
  assumes "getMap w = Some m"
  shows "(priv_map w = Some (map_id m) \<longrightarrow> onRender E w = (Inr (), w))
       \<and> onRender E (snd (onRender E w)) = (Inr (), snd (onRender E w))
       \<and> run E (replicate n Render) (step E Render w) = step E Render w
       \<and> view_change_listeners (run E evs (step E Render w)) =
           view_change_listeners w @ (if priv_map w = Some (map_id m) then [] else [map_id m])
       \<and> map_size_listeners (run E evs (step E Render w)) =
           map_size_listeners w @ (if priv_map w = Some (map_id m) then [] else [map_id m])
       \<and> remove_once_handlers (run E evs (step E Render w)) =
           remove_once_handlers w @ (if priv_map w = Some (map_id m) then [] else [map_id m])"
proof -
  have h: "host_map w = Some m" using assms by simp
  let ?w1 = "snd (onRender E w)"
  have h1: "host_map ?w1 = Some m" and p1: "priv_map ?w1 = Some (map_id m)"
    using onRender_frame(1,2) [OF h] by simp_all
  show ?thesis
    using onRender_attached [OF h] onRender_twice [OF h] onRender_frame(7,8,9) [OF h, of E]
      run_attached [OF h1 p1, of E evs] run_renders [OF h1 p1, of E n]
    by simp
qed

theorem render_registers_once_witness:
  "view_change_listeners (run E0 [Render, Assign (Assign_paperFormat (ascii ''a3'')), Render]
       (step E0 Render (setMap (Some host0) (constructor None (holding no_margins))))) = [1]
   \<and> map_size_listeners (run E0 [Render, Assign (Assign_paperFormat (ascii ''a3'')), Render]
       (step E0 Render (setMap (Some host0) (constructor None (holding no_margins))))) = [1]
   \<and> run E0 (replicate 3 Render)
       (step E0 Render (setMap (Some host0) (constructor None (holding no_margins))))
       = step E0 Render (setMap (Some host0) (constructor None (holding no_margins)))"
proof -
  have h: "getMap (setMap (Some host0) (constructor None (holding no_margins))) = Some host0"
    by (simp add: setMap_def)
  show ?thesis
    using render_registers_once [OF h, of E0 3
        "[Render, Assign (Assign_paperFormat (ascii ''a3'')), Render]"]
    by (auto simp: setMap_def constructor_fresh)
qed

section \<open>Properties of the print sizes in binary64 arithmetic\<close>

subsection \<open>Rounding to binary64\<close>

lemma binary64_zero [simp]: "binary64 0 = Num 0"
  by (simp add: binary64_def)

lemma overflow_threshold_pos: "0 < overflow_threshold"
  by (simp add: overflow_threshold_def)

lemma binary64_range: "binary64 x = Num y \<Longrightarrow> \<bar>y\<bar> < overflow_threshold"
  using overflow_threshold_pos by (auto simp: binary64_def Let_def split: if_splits)

lemma round_even_near: "\<bar>of_int (round_even x) - x\<bar> \<le> 1 / 2"
  unfolding round_even_def Let_def by (auto; linarith)

lemma round_even_int [simp]: "round_even (of_int n) = n"
  by (simp add: round_even_def)

lemma round_even_bound:
  assumes "\<bar>x\<bar> \<le> of_int n"
  shows "\<bar>round_even x\<bar> \<le> n"
proof -
  have "real_of_int (round_even x) < of_int (n + 1)"
    and "of_int (- n - 1) < real_of_int (round_even x)"
    using round_even_near [of x] assms by (simp_all; linarith)+
  then have "round_even x < n + 1" and "- n - 1 < round_even x"
    by (simp_all only: of_int_less_iff)
  then show ?thesis by linarith
qed

text \<open>The exponent of a number between two powers of two.\<close>

lemma ulp_exponent_eq:
  assumes "2 powi e \<le> \<bar>x\<bar>" and "\<bar>x\<bar> < 2 powi (e + 1)"
  shows "ulp_exponent x = max (e - 52) (- 1074)"
proof -
  have "(0::real) < 2 powi e" by simp
  then have pos: "0 < \<bar>x\<bar>" using assms(1) by linarith
  have "2 powr real_of_int e = 2 powi e" "2 powr real_of_int (e + 1) = 2 powi (e + 1)"
    by (simp_all only: powr_real_of_int' [of 2, simplified])
  then have "2 powr real_of_int e \<le> \<bar>x\<bar> \<and> \<bar>x\<bar> < 2 powr real_of_int (e + 1)"
    using assms by simp
  then have "\<lfloor>log 2 \<bar>x\<bar>\<rfloor> = e"
    using floor_log_eq_powr_iff [OF pos, of 2 e] by simp
  then show ?thesis by (simp add: ulp_exponent_def)
qed

lemma binary64_eval:
  assumes "2 ^ 52 \<le> \<bar>x\<bar> * 2 ^ k" and "\<bar>x\<bar> * 2 ^ k < 2 ^ 53" and "k \<le> 1074"
  shows "binary64 x = Num (of_int (round_even (x * 2 ^ k)) / 2 ^ k)"
proof -
  let ?e = "52 - int k"
  have p: "(2::real) powi (- int k) = 1 / 2 ^ k"
    by (simp add: power_int_minus field_simps)
  have "(2::real) powi ?e = 2 ^ 52 / 2 ^ k" "(2::real) powi (?e + 1) = 2 ^ 53 / 2 ^ k"
    by (simp_all add: power_int_diff power_int_add)
  moreover have "2 ^ 52 / 2 ^ k \<le> \<bar>x\<bar>" "\<bar>x\<bar> < 2 ^ 53 / 2 ^ k"
    using assms(1,2) by (simp_all add: pos_divide_le_eq pos_less_divide_eq)
  ultimately have "2 powi ?e \<le> \<bar>x\<bar>" "\<bar>x\<bar> < 2 powi (?e + 1)"
    by simp_all
  then have "ulp_exponent x = max (?e - 52) (- 1074)" by (rule ulp_exponent_eq)
  then have u: "ulp_exponent x = - int k" using assms(3) by simp
  have x0: "x \<noteq> 0" using assms(1) by auto
  define r where "r = real_of_int (round_even (x * 2 ^ k))"
  have "\<bar>x * 2 ^ k\<bar> \<le> of_int (2 ^ 53)" using assms(2) by (simp add: abs_mult)
  then have "\<bar>round_even (x * 2 ^ k)\<bar> \<le> 2 ^ 53" by (rule round_even_bound)
  then have "real_of_int \<bar>round_even (x * 2 ^ k)\<bar> \<le> real_of_int (2 ^ 53)"
    by (simp only: of_int_le_iff)
  then have r: "\<bar>r\<bar> \<le> 2 ^ 53" by (simp add: r_def)
  have "\<bar>r\<bar> * 1 \<le> \<bar>r\<bar> * 2 ^ k" by (rule mult_left_mono) simp_all
  then have "\<bar>r\<bar> / 2 ^ k \<le> \<bar>r\<bar>" by (simp add: pos_divide_le_eq)
  with r have "\<bar>r / 2 ^ k\<bar> \<le> 2 ^ 53" by simp
  also have "(2::real) ^ 53 < overflow_threshold" by (simp add: overflow_threshold_def)
  finally have small:
    "\<not> overflow_threshold \<le> \<bar>real_of_int (round_even (x * 2 ^ k)) / 2 ^ k\<bar>"
    by (simp add: r_def)
  show ?thesis
    using x0 small by (simp add: binary64_def Let_def u p)
qed

lemma add64_range: "add64 x y = Num a \<Longrightarrow> \<bar>a\<bar> < overflow_threshold"
  by (cases x; cases y) (simp_all add: binary64_range)

lemma sub64_range: "sub64 x y = Num a \<Longrightarrow> \<bar>a\<bar> < overflow_threshold"
  unfolding sub64_def by (rule add64_range)

text \<open>A real below \<open>2 ^ 1023\<close> in size rounds to a finite number.\<close>

lemma binary64_finite:
  assumes "2 * \<bar>x\<bar> < overflow_threshold"
  shows "\<exists>y. binary64 x = Num y"
proof (cases "x = 0")
  case True
  then show ?thesis by simp
next
  case False
  then have pos: "0 < \<bar>x\<bar>" by simp
  have half: "overflow_threshold = 2 * 2 ^ 1023" by (simp add: overflow_threshold_def)
  have small: "\<bar>x\<bar> < 2 ^ 1023" using assms unfolding half by simp
  then have "\<bar>x\<bar> < 2 powr 1023" by (simp add: powr_numeral)
  then have "log 2 \<bar>x\<bar> < 1023" using pos by (simp add: log_less_iff)
  then have "\<lfloor>log 2 \<bar>x\<bar>\<rfloor> \<le> 1023" by (simp add: floor_le_iff)
  then have "ulp_exponent x \<le> 1023" by (simp add: ulp_exponent_def)
  then have "(2::real) powi ulp_exponent x \<le> 2 powi 1023"
    by (rule power_int_increasing) simp
  then have q: "(2::real) powi ulp_exponent x \<le> 2 ^ 1023" by simp
  define q where "q = (2::real) powi ulp_exponent x"
  have qpos: "0 < q" by (simp add: q_def)
  define r where "r = real_of_int (round_even (x / q))"
  define y where "y = r * q"
  have "y - x = (r - x / q) * q" using qpos by (simp add: y_def field_simps)
  then have "\<bar>y - x\<bar> = \<bar>r - x / q\<bar> * \<bar>q\<bar>" by (simp only: abs_mult)
  also have "\<dots> = \<bar>r - x / q\<bar> * q" using qpos by simp
  also have "\<dots> \<le> 1 / 2 * q"
    unfolding r_def by (rule mult_right_mono [OF round_even_near]) (use qpos in simp)
  finally have "\<bar>y\<bar> \<le> \<bar>x\<bar> + q / 2" by linarith
  also have "\<dots> < 2 ^ 1023 + 2 ^ 1023 / 2" using small q by (simp add: q_def)
  also have "\<dots> \<le> overflow_threshold" unfolding half by simp
  finally have "\<not> overflow_threshold \<le> \<bar>y\<bar>" by simp
  then show ?thesis
    using False
    by (simp add: binary64_def Let_def q_def [symmetric] y_def [symmetric] r_def [symmetric])
qed

subsection \<open>Evaluation of the print sizes\<close>

lemma INCH2MM64_value: "INCH2MM64 = Num (3574732204225331 / 2 ^ 47)"
  unfolding INCH2MM64_def
  by (subst binary64_eval [where k = 48]) (simp_all add: round_even_def)

lemma binary64_small_integers:
  "binary64 4 = Num 4" "binary64 40 = Num 40" "binary64 170 = Num 170" "binary64 257 = Num 257"
  by (subst binary64_eval [where k = 50], simp_all add: round_even_def,
      subst binary64_eval [where k = 47], simp_all add: round_even_def,
      subst binary64_eval [where k = 45], simp_all add: round_even_def,
      subst binary64_eval [where k = 44], simp_all add: round_even_def)

lemma PAPER_SIZE64_A4: "PAPER_SIZE64 (ascii ''A4'') = Some (Num 210, Num 297)"
  by (simp add: PAPER_SIZE64_def ascii_def)

lemma a4_mm64:
  "getPrintBoxSizeInMM64 a4_portrait_2cm = Inr \<lparr>width64 = Num 170, height64 = Num 257\<rparr>"
  by (simp add: getPrintBoxSizeInMM64_def a4_portrait_2cm_def PAPER_SIZE64_A4
      ORIENTATION_PORTRAIT_def sub64_def binary64_small_integers)

lemma a4_inches64:
  "div64 (Num 170) INCH2MM64 = Num (7535550557608114 / 2 ^ 50)"
  "div64 (Num 257) INCH2MM64 = Num (5695989686192015 / 2 ^ 49)"
  unfolding INCH2MM64_value
  by (simp, subst binary64_eval [where k = 50], simp_all add: round_even_def,
      subst binary64_eval [where k = 49], simp_all add: round_even_def)

lemma a4_dots64_96:
  "getPrintBoxSizeInDots64 a4_portrait_2cm (Some (Num 96))
     = Inr \<lparr>width64 = Num 643, height64 = Num 971\<rparr>"
proof -
  have "mul64 (Num (7535550557608114 / 2 ^ 50)) (Num 96) = Num (5651662918206086 / 2 ^ 43)"
    by (simp, subst binary64_eval [where k = 43]) (simp_all add: round_even_def)
  moreover have "mul64 (Num (5695989686192015 / 2 ^ 49)) (Num 96) = Num (8543984529288022 / 2 ^ 43)"
    by (simp, subst binary64_eval [where k = 43]) (simp_all add: round_even_def)
  ultimately show ?thesis
    by (simp add: getPrintBoxSizeInDots64_def a4_mm64 a4_inches64)
qed

lemma a4_dots64_192:
  "getPrintBoxSizeInDots64 a4_portrait_2cm (Some (Num 192))
     = Inr \<lparr>width64 = Num 1285, height64 = Num 1943\<rparr>"
proof -
  have "mul64 (Num (7535550557608114 / 2 ^ 50)) (Num 192) = Num (5651662918206086 / 2 ^ 42)"
    by (simp, subst binary64_eval [where k = 42]) (simp_all add: round_even_def)
  moreover have "mul64 (Num (5695989686192015 / 2 ^ 49)) (Num 192) = Num (8543984529288022 / 2 ^ 42)"
    by (simp, subst binary64_eval [where k = 42]) (simp_all add: round_even_def)
  ultimately show ?thesis
    by (simp add: getPrintBoxSizeInDots64_def a4_mm64 a4_inches64)
qed

text \<open>
  A sheet of format LETTER in portrait with margins of half a centimetre, at 127 dpi: the
  source computes a width of 1029 dots.
\<close>

lemma letter_dots64_127:
  "getPrintBoxSizeInDots64 letter_portrait_half_cm (Some (Num 127))
     = Inr \<lparr>width64 = Num 1029, height64 = Num 1347\<rparr>"
proof -
  have sizes: "PAPER_SIZE64 (ascii ''LETTER'')
      = Some (Num (7596305933978828 / 2 ^ 45), Num (4915256780809830 / 2 ^ 44))"
    unfolding PAPER_SIZE64_def INCH2MM64_value
    by (simp add: ascii_def, subst binary64_eval [where k = 45], simp_all add: round_even_def,
        subst binary64_eval [where k = 44], simp_all add: round_even_def)
  have sum: "mul64 (add64 (Num (1 / 2)) (Num (1 / 2))) (Num 10) = Num 10"
    by (simp, subst binary64_eval [where k = 52], simp_all add: round_even_def,
        subst binary64_eval [where k = 49], simp_all add: round_even_def)
  have w: "sub64 (Num (7596305933978828 / 2 ^ 45)) (Num 10) = Num (7244462213090508 / 2 ^ 45)"
    by (simp add: sub64_def, subst binary64_eval [where k = 45]) (simp_all add: round_even_def)
  have h: "sub64 (Num (4915256780809830 / 2 ^ 44)) (Num 10) = Num (4739334920365670 / 2 ^ 44)"
    by (simp add: sub64_def, subst binary64_eval [where k = 44]) (simp_all add: round_even_def)
  have mm: "getPrintBoxSizeInMM64 letter_portrait_half_cm
      = Inr \<lparr>width64 = Num (7244462213090508 / 2 ^ 45),
             height64 = Num (4739334920365670 / 2 ^ 44)\<rparr>"
    using sizes sum w h
    by (simp add: getPrintBoxSizeInMM64_def letter_portrait_half_cm_def ORIENTATION_PORTRAIT_def)
  have wi: "div64 (Num (7244462213090508 / 2 ^ 45)) INCH2MM64 = Num (4563440764151501 / 2 ^ 49)"
    unfolding INCH2MM64_value
    by (simp, subst binary64_eval [where k = 49]) (simp_all add: round_even_def)
  have hi: "div64 (Num (4739334920365670 / 2 ^ 44)) INCH2MM64 = Num (5970815647704781 / 2 ^ 49)"
    unfolding INCH2MM64_value
    by (simp, subst binary64_eval [where k = 49]) (simp_all add: round_even_def)
  have wd: "mul64 (Num (4563440764151501 / 2 ^ 49)) (Num 127) = Num (4527788883181567 / 2 ^ 42)"
    by (simp, subst binary64_eval [where k = 42]) (simp_all add: round_even_def)
  have hd: "mul64 (Num (5970815647704781 / 2 ^ 49)) (Num 127) = Num (5924168650457087 / 2 ^ 42)"
    by (simp, subst binary64_eval [where k = 42]) (simp_all add: round_even_def)
  show ?thesis
    using mm wi hi wd hd by (simp add: getPrintBoxSizeInDots64_def)
qed

text \<open>
  In exact arithmetic the same configuration gives a width of 1030: the product is 1029.5,
  and its binary64 value lies just below.
\<close>

lemma letter_dots_exact_127:
  "getPrintBoxSizeInDots
     (constructor
        (Some \<lparr>opt_margins = Some (Obj 0), opt_format = Some (ascii ''LETTER''),
               opt_orientation = None\<rparr>)
        (holding \<lparr>m_top = 1 / 2, m_bottom = 1 / 2, m_left = 1 / 2, m_right = 1 / 2\<rparr>))
     (Some 127)
   = Inr \<lparr>width = 1030, height = 1347\<rparr>"
proof -
  let ?w = "constructor
        (Some \<lparr>opt_margins = Some (Obj 0), opt_format = Some (ascii ''LETTER''),
               opt_orientation = None\<rparr>)
        (holding \<lparr>m_top = 1 / 2, m_bottom = 1 / 2, m_left = 1 / 2, m_right = 1 / 2\<rparr>)"
  have c: "p_format ?w = ascii ''LETTER''" "p_orientation ?w = ORIENTATION_PORTRAIT"
    "margins ?w = \<lparr>m_top = 1 / 2, m_bottom = 1 / 2, m_left = 1 / 2, m_right = 1 / 2\<rparr>"
    by (simp_all add: constructor_def holding_def margins_def)
  have s: "PAPER_SIZE (ascii ''LETTER'')
      = Some \<lparr>short = 85 / 10 * INCH2MM, long = 11 * INCH2MM\<rparr>"
    by (simp add: PAPER_SIZE_def)
  have mm: "getPrintBoxSizeInMM ?w
      = Inr \<lparr>width = 85 / 10 * INCH2MM - 10, height = 11 * INCH2MM - 10\<rparr>"
    by (simp add: getPrintBoxSizeInMM_def c s)
  have "Math_round ((85 / 10 * INCH2MM - 10) / INCH2MM * 127) = 1030"
    "Math_round ((11 * INCH2MM - 10) / INCH2MM * 127) = 1347"
    by (simp_all add: Math_round_def INCH2MM_def)
  then show ?thesis
    unfolding getPrintBoxSizeInDots_def mm by simp
qed

subsection \<open>The print size in dots\<close>

lemma whole_round64: "whole (round64 x)"
  by (cases x) (simp_all add: whole_def)

text \<open>A finite printable size gives a finite size in inches, and zero dots at zero dpi.\<close>

lemma zero_dpi:
  assumes "\<And>a. x = Num a \<Longrightarrow> \<bar>a\<bar> < overflow_threshold"
  shows "round64 (mul64 (div64 x INCH2MM64) (Num 0)) = zero_or_NaN x"
proof (cases x)
  case (Num a)
  have "\<bar>a\<bar> < overflow_threshold" using assms Num by simp
  moreover have "\<bar>a / (3574732204225331 / 2 ^ 47)\<bar> * 25 \<le> \<bar>a\<bar>"
    by (simp add: abs_divide field_simps)
  ultimately have "2 * \<bar>a / (3574732204225331 / 2 ^ 47)\<bar> < overflow_threshold"
    using abs_ge_zero [of "a / (3574732204225331 / 2 ^ 47)"] by linarith
  then obtain y where "binary64 (a / (3574732204225331 / 2 ^ 47)) = Num y"
    using binary64_finite by blast
  then show ?thesis
    using Num by (simp add: INCH2MM64_value zero_or_NaN_def)
qed (simp_all add: INCH2MM64_value zero_or_NaN_def infinity64_def)

lemma mm64_range:
  assumes "getPrintBoxSizeInMM64 c = Inr mm"
  shows "width64 mm = Num a \<Longrightarrow> \<bar>a\<bar> < overflow_threshold"
    and "height64 mm = Num a \<Longrightarrow> \<bar>a\<bar> < overflow_threshold"
  using assms
  by (auto simp: getPrintBoxSizeInMM64_def Let_def sub64_range
      split: option.splits prod.splits if_splits)

text \<open>
  Claim C8, as the code has it. For every stored configuration for which
  \<open>getPrintBoxSizeInMM\<close> returns a size, \<open>getPrintBoxSizeInDots(dpi)\<close> returns for every
  \<open>dpi\<close> the size whose dimensions are \<open>Math.round\<close> of the product, in binary64
  arithmetic, of the printable size in inches and \<open>dpi\<close>: each is an integer whenever it is
  finite, and so does not scale linearly with \<open>dpi\<close>. At \<open>dpi = 0\<close> a dimension is 0 when
  the printable size in millimetres is finite, and NaN when it is not.
\<close>

theorem dots_rounded_not_linear:
  assumes "getPrintBoxSizeInMM64 c = Inr mm"
  shows "getPrintBoxSizeInDots64 c (Some dpi) =
           Inr \<lparr>width64 = round64 (mul64 (div64 (width64 mm) INCH2MM64) dpi),
                height64 = round64 (mul64 (div64 (height64 mm) INCH2MM64) dpi)\<rparr>
       \<and> whole (round64 (mul64 (div64 (width64 mm) INCH2MM64) dpi))
       \<and> whole (round64 (mul64 (div64 (height64 mm) INCH2MM64) dpi))
       \<and> getPrintBoxSizeInDots64 c (Some (Num 0)) =
           Inr \<lparr>width64 = zero_or_NaN (width64 mm), height64 = zero_or_NaN (height64 mm)\<rparr>"
proof -
  have d: "getPrintBoxSizeInDots64 c (Some d) =
           Inr \<lparr>width64 = round64 (mul64 (div64 (width64 mm) INCH2MM64) d),
                height64 = round64 (mul64 (div64 (height64 mm) INCH2MM64) d)\<rparr>" for d
    using assms by (simp add: getPrintBoxSizeInDots64_def)
  have "round64 (mul64 (div64 (width64 mm) INCH2MM64) (Num 0)) = zero_or_NaN (width64 mm)"
    and "round64 (mul64 (div64 (height64 mm) INCH2MM64) (Num 0)) = zero_or_NaN (height64 mm)"
    using mm64_range [OF assms] by (simp_all add: zero_dpi)
  then show ?thesis
    by (simp add: d whole_round64)
qed

theorem dots_rounded_not_linear_witness:
  "getPrintBoxSizeInDots64 a4_portrait_2cm (Some (Num 192))
     = Inr \<lparr>width64 = Num 1285, height64 = Num 1943\<rparr>
   \<and> whole (Num 1285) \<and> whole (Num 1943)
   \<and> getPrintBoxSizeInDots64 a4_portrait_2cm (Some (Num 0))
     = Inr \<lparr>width64 = Num 0, height64 = Num 0\<rparr>"
proof -
  have r: "round64 (mul64 (div64 (Num 170) INCH2MM64) (Num 192)) = Num 1285"
    "round64 (mul64 (div64 (Num 257) INCH2MM64) (Num 192)) = Num 1943"
    using a4_dots64_192 by (simp_all add: getPrintBoxSizeInDots64_def a4_mm64 Let_def)
  show ?thesis
    using dots_rounded_not_linear [OF a4_mm64, of "Num 192"]
    by (simp add: r zero_or_NaN_def)
qed

text \<open>
  Claim C8 as stated fails: with format A4, orientation portrait and margins of 2 cm the
  width at 96 dpi is 643 and the width at twice 96 dpi is 1285, not twice 643.
\<close>

theorem dots_not_linear:
  "getPrintBoxSizeInDots64 a4_portrait_2cm (Some (Num 96))
     = Inr \<lparr>width64 = Num 643, height64 = Num 971\<rparr>
   \<and> getPrintBoxSizeInDots64 a4_portrait_2cm (Some (Num 192))
     = Inr \<lparr>width64 = Num 1285, height64 = Num 1943\<rparr>
   \<and> (192::real) = 2 * 96 \<and> (1285::real) \<noteq> 2 * 643"
  by (simp add: a4_dots64_96 a4_dots64_192)

end
